theory Spec2Isabelle
  imports Main
begin

section \<open>Data model\<close>

text \<open>
  The tables of the application (accounts.User, courses.Course, courses.Enrollment,
  courses.CourseMaterial, notifications.Notification, chat.ChatRoom, chat.Message) are
  lists of rows in insertion order. Primary keys and foreign keys are natural numbers,
  timestamps are natural numbers supplied by the caller as the current time.
\<close>

datatype role = STUDENT | TEACHER

record user =
  user_pk :: nat
  username :: string
  first_name :: string
  last_name :: string
  role :: role

text \<open>\<^verbatim>\<open>request.user\<close> / \<^verbatim>\<open>scope['user']\<close>: the anonymous user or a row of the user table.\<close>

datatype scope_user = AnonymousUser | Authenticated user

definition is_teacher :: "user \<Rightarrow> bool" where
  "is_teacher u = (role u = TEACHER)"

definition is_student :: "user \<Rightarrow> bool" where
  "is_student u = (role u = STUDENT)"

record course =
  course_pk :: nat
  teacher_id :: nat
  course_title :: string
  course_code :: string
  max_students :: nat

datatype status = ACTIVE | DROPPED | BLOCKED

record enrollment =
  enr_pk :: nat
  student_id :: nat
  enr_course_id :: nat
  status :: status
  enrolled_at :: nat
  dropped_at :: "nat option"

record course_material =
  mat_pk :: "nat option"
  mat_course_id :: nat
  mat_title :: string

record notification =
  recipient_id :: nat
  notification_type :: string
  title :: string
  message :: string
  link :: string
  is_read :: bool

datatype room_type = DIRECT | COURSE

record chat_room =
  room_pk :: nat
  room_name :: string
  room_kind :: room_type
  room_course_id :: "nat option"
  participants :: "nat set"
  created_at :: nat

record chat_message =
  msg_pk :: nat
  msg_room_id :: nat
  sender_id :: nat
  content :: string
  timestamp :: nat
  msg_is_read :: bool

text \<open>The two Celery tasks of notifications/tasks.py with their keyword arguments
  (recipient or course id, notification type, title, message, link).\<close>

datatype task =
    Create_notification nat string string string string
  | Notify_course_students nat string string string string

text \<open>Calls made on the manager \<^verbatim>\<open>Notification.objects\<close>: \<^verbatim>\<open>create\<close> of one row, or
  \<^verbatim>\<open>bulk_create\<close> of a list of rows in one call.\<close>

datatype manager_call = Create notification | Bulk_create "notification list"

text \<open>\<^verbatim>\<open>str(datetime.isoformat())\<close> of a timestamp, kept symbolic.\<close>

datatype iso8601 = Isoformat nat

text \<open>The frame \<^verbatim>\<open>chat_message\<close> forwards to a client with \<^verbatim>\<open>send_json\<close>.\<close>

record frame =
  f_message :: string
  f_sender_id :: nat
  f_sender_username :: string
  f_timestamp :: iso8601

text \<open>
  The whole state: the database tables, the setting \<^verbatim>\<open>CELERY_TASK_ALWAYS_EAGER\<close> with
  the queue of tasks not yet run, the calls made on the notification manager, and the
  channel layer (members of every group, and the frames sent to every channel).
\<close>

record state =
  users :: "user list"
  courses :: "course list"
  enrollments :: "enrollment list"
  materials :: "course_material list"
  notifications :: "notification list"
  rooms :: "chat_room list"
  messages :: "chat_message list"
  task_always_eager :: bool
  task_queue :: "task list"
  notification_calls :: "manager_call list"
  groups :: "string \<Rightarrow> string set"
  sent_frames :: "string \<Rightarrow> frame list"

datatype error =
    MultipleObjectsReturned
  | DoesNotExist
  | IntegrityError
  | AttributeError
  | ValueError

datatype http_method = GET | POST

record request =
  req_method :: http_method
  req_user :: scope_user

text \<open>A POST and a GET request of an authenticated user.\<close>

definition post_as :: "user \<Rightarrow> request" where
  "post_as u = \<lparr>req_method = POST, req_user = Authenticated u\<rparr>"

definition get_as :: "user \<Rightarrow> request" where
  "get_as u = \<lparr>req_method = GET, req_user = Authenticated u\<rparr>"

datatype level = SUCCESS | INFO | ERROR

datatype response =
    Redirect string
  | Redirect_pk string nat
  | Redirect_login
  | Http404
  | Render_chat_room chat_room "chat_message list"

section \<open>Helpers of the framework\<close>

text \<open>The next value of an auto-increment primary key.\<close>

definition next_pk :: "nat list \<Rightarrow> nat" where
  "next_pk pks = Suc (fold max pks 0)"

text \<open>Python's \<^verbatim>\<open>str.isspace\<close> on the characters below 256 and \<^verbatim>\<open>str.strip()\<close>.\<close>

definition isspace :: "char \<Rightarrow> bool" where
  "isspace c = (let n = (of_char c :: nat) in
     (9 \<le> n \<and> n \<le> 13) \<or> (28 \<le> n \<and> n \<le> 32) \<or> n = 133 \<or> n = 160)"

definition strip :: "string \<Rightarrow> string" where
  "strip s = rev (dropWhile isspace (rev (dropWhile isspace s)))"

text \<open>Django's \<^verbatim>\<open>AbstractUser.get_full_name\<close>: first and last name joined by a space,
  stripped.\<close>

definition get_full_name :: "user \<Rightarrow> string" where
  "get_full_name u = strip (first_name u @ '' '' @ last_name u)"

text \<open>\<^verbatim>\<open>str(n)\<close> of a non-negative integer.\<close>

definition digit_char :: "nat \<Rightarrow> char" where
  "digit_char d = ''0123456789'' ! d"

fun str_nat :: "nat \<Rightarrow> string" where
  "str_nat n = (if n < 10 then [digit_char n] else str_nat (n div 10) @ [digit_char (n mod 10)])"

text \<open>\<^verbatim>\<open>int(s)\<close> of a string of decimal digits (the URL patterns of chat/routing.py only
  match \<^verbatim>\<open>\d+\<close>).\<close>

definition int_str :: "string \<Rightarrow> nat" where
  "int_str s = foldl (\<lambda>a c. 10 * a + (of_char c - 48)) 0 s"

text \<open>Query sets: \<^verbatim>\<open>order_by('f')\<close> and \<^verbatim>\<open>order_by('-f')\<close> (also the default ordering
  of a model's \<^verbatim>\<open>Meta\<close>) as stable sorts of the rows in table order, so that rows with equal
  keys stay in table order; \<^verbatim>\<open>first()\<close> as the head of the result, if any.\<close>

definition order_by :: "('a \<Rightarrow> nat) \<Rightarrow> 'a list \<Rightarrow> 'a list" where
  "order_by key xs = sort_key key xs"

definition order_by_desc :: "('a \<Rightarrow> nat) \<Rightarrow> 'a list \<Rightarrow> 'a list" where
  "order_by_desc key xs = rev (sort_key key (rev xs))"

definition first :: "'a list \<Rightarrow> 'a option" where
  "first xs = (case xs of [] \<Rightarrow> None | x # _ \<Rightarrow> Some x)"

section \<open>notifications/tasks.py\<close>

definition create_notification ::
  "state \<Rightarrow> nat \<Rightarrow> string \<Rightarrow> string \<Rightarrow> string \<Rightarrow> string \<Rightarrow> state" where
  "create_notification st rid ntype ttl msg lnk =
     (let n = \<lparr>recipient_id = rid, notification_type = ntype, title = ttl,
                message = msg, link = lnk, is_read = False\<rparr>
      in st\<lparr>notifications := notifications st @ [n],
            notification_calls := notification_calls st @ [Create n]\<rparr>)"

text \<open>The query set of the active enrollments of the course follows the default ordering
  of Enrollment, \<^verbatim>\<open>['-enrolled_at']\<close>: the latest enrollment comes first.\<close>

definition notify_course_students ::
  "state \<Rightarrow> nat \<Rightarrow> string \<Rightarrow> string \<Rightarrow> string \<Rightarrow> string \<Rightarrow> state" where
  "notify_course_students st cid ntype ttl msg lnk =
     (let student_ids = map student_id
            (order_by_desc enrolled_at
               (filter (\<lambda>e. enr_course_id e = cid \<and> status e = ACTIVE) (enrollments st)));
          ns = map (\<lambda>sid. \<lparr>recipient_id = sid, notification_type = ntype, title = ttl,
                            message = msg, link = lnk, is_read = False\<rparr>) student_ids
      in st\<lparr>notifications := notifications st @ ns,
            notification_calls := notification_calls st @ [Bulk_create ns]\<rparr>)"

fun run_task :: "state \<Rightarrow> task \<Rightarrow> state" where
  "run_task st (Create_notification rid ntype ttl msg lnk) =
     create_notification st rid ntype ttl msg lnk"
| "run_task st (Notify_course_students cid ntype ttl msg lnk) =
     notify_course_students st cid ntype ttl msg lnk"

text \<open>\<^verbatim>\<open>task.delay(...)\<close>: run inline in eager mode, put on the queue otherwise.\<close>

definition delay :: "state \<Rightarrow> task \<Rightarrow> state" where
  "delay st t = (if task_always_eager st then run_task st t
                 else st\<lparr>task_queue := task_queue st @ [t]\<rparr>)"

section \<open>Lookups by primary key\<close>

text \<open>\<^verbatim>\<open>Model.objects.get(pk=...)\<close> as an option; the primary key is unique in a table.\<close>

definition get_user :: "state \<Rightarrow> nat \<Rightarrow> user option" where
  "get_user st pk = find (\<lambda>u. user_pk u = pk) (users st)"

definition get_course :: "state \<Rightarrow> nat \<Rightarrow> course option" where
  "get_course st pk = find (\<lambda>c. course_pk c = pk) (courses st)"


section \<open>courses/signals.py\<close>

text \<open>The receivers of \<^verbatim>\<open>post_save\<close>. The related objects \<^verbatim>\<open>instance.course\<close> and
  \<^verbatim>\<open>instance.student\<close> are read through the foreign keys of the instance, and only
  when the guard of the receiver holds.\<close>

definition notify_teacher_on_enrollment :: "state \<Rightarrow> enrollment \<Rightarrow> bool \<Rightarrow> error + state" where
  "notify_teacher_on_enrollment st instance created =
     (if created \<and> status instance = ACTIVE then
        (case get_course st (enr_course_id instance) of
           None \<Rightarrow> Inl DoesNotExist
         | Some crs \<Rightarrow>
            (case get_user st (student_id instance) of
               None \<Rightarrow> Inl DoesNotExist
             | Some student \<Rightarrow>
                 Inr (delay st (Create_notification (teacher_id crs) ''enrollment''
                   (''New enrollment in '' @ course_code crs)
                   ((if get_full_name student \<noteq> [] then get_full_name student
                     else username student)
                      @ '' has enrolled in '' @ course_title crs @ ''.'')
                   (''/courses/'' @ str_nat (course_pk crs) @ ''/students/'')))))
      else Inr st)"

definition notify_students_on_new_material ::
  "state \<Rightarrow> course_material \<Rightarrow> bool \<Rightarrow> error + state" where
  "notify_students_on_new_material st instance created =
     (if created then
        (case get_course st (mat_course_id instance) of
           None \<Rightarrow> Inl DoesNotExist
         | Some crs \<Rightarrow>
             Inr (delay st (Notify_course_students (mat_course_id instance) ''new_material''
               (''New material in '' @ course_code crs)
               ([CHR 0x22] @ mat_title instance @ [CHR 0x22] @ '' has been uploaded to ''
                  @ course_title crs @ ''.'')
               (''/courses/'' @ str_nat (mat_course_id instance) @ ''/''))))
      else Inr st)"

section \<open>courses/models.py\<close>

definition enrolled_count :: "state \<Rightarrow> course \<Rightarrow> nat" where
  "enrolled_count st crs =
     length (filter (\<lambda>e. enr_course_id e = course_pk crs \<and> status e = ACTIVE) (enrollments st))"

definition is_full :: "state \<Rightarrow> course \<Rightarrow> bool" where
  "is_full st crs = (enrolled_count st crs \<ge> max_students crs)"

text \<open>\<^verbatim>\<open>Enrollment.objects.create(student, course, status)\<close>: insert a row, which fails
  on a foreign key without its row, then send \<^verbatim>\<open>post_save\<close> with \<^verbatim>\<open>created=True\<close>.\<close>

definition Enrollment_create ::
  "state \<Rightarrow> nat \<Rightarrow> nat \<Rightarrow> status \<Rightarrow> nat \<Rightarrow> error + (state \<times> enrollment)" where
  "Enrollment_create st sid cid stat now =
     (if get_user st sid = None \<or> get_course st cid = None then Inl IntegrityError
      else
       (let e = \<lparr>enr_pk = next_pk (map enr_pk (enrollments st)), student_id = sid,
                  enr_course_id = cid, status = stat, enrolled_at = now, dropped_at = None\<rparr>
        in case notify_teacher_on_enrollment (st\<lparr>enrollments := enrollments st @ [e]\<rparr>) e True of
             Inl err \<Rightarrow> Inl err
           | Inr st' \<Rightarrow> Inr (st', e)))"

text \<open>\<^verbatim>\<open>enrollment.save()\<close> of an instance read from the table: update the row with
  its primary key, then send \<^verbatim>\<open>post_save\<close> with \<^verbatim>\<open>created=False\<close>.\<close>

definition Enrollment_save :: "state \<Rightarrow> enrollment \<Rightarrow> error + state" where
  "Enrollment_save st instance =
     notify_teacher_on_enrollment
       (st\<lparr>enrollments :=
          map (\<lambda>e. if enr_pk e = enr_pk instance then instance else e) (enrollments st)\<rparr>)
       instance False"

text \<open>\<^verbatim>\<open>Enrollment.objects.get_or_create(student, course, defaults={'status': ACTIVE})\<close>.\<close>

definition Enrollment_get_or_create ::
  "state \<Rightarrow> user \<Rightarrow> course \<Rightarrow> nat \<Rightarrow> error + (state \<times> enrollment \<times> bool)" where
  "Enrollment_get_or_create st student crs now =
     (case filter (\<lambda>e. student_id e = user_pk student \<and> enr_course_id e = course_pk crs)
             (enrollments st) of
        [] \<Rightarrow> (case Enrollment_create st (user_pk student) (course_pk crs) ACTIVE now of
                 Inl err \<Rightarrow> Inl err
               | Inr (st', e) \<Rightarrow> Inr (st', e, True))
      | [e] \<Rightarrow> Inr (st, e, False)
      | _ \<Rightarrow> Inl MultipleObjectsReturned)"

text \<open>\<^verbatim>\<open>CourseMaterial.save()\<close>: an instance without primary key, or whose primary key is
  not in the table, is inserted (\<^verbatim>\<open>created=True\<close>); otherwise its row is updated
  (\<^verbatim>\<open>created=False\<close>). Then \<^verbatim>\<open>post_save\<close> is sent. The uploaded file and its
  size are not part of the model.\<close>

definition CourseMaterial_save :: "state \<Rightarrow> course_material \<Rightarrow> error + state" where
  "CourseMaterial_save st instance =
     (case mat_pk instance of
        None \<Rightarrow>
          (let m = instance\<lparr>mat_pk := Some (next_pk (map (\<lambda>x. case mat_pk x of None \<Rightarrow> 0 | Some k \<Rightarrow> k)
                                                      (materials st)))\<rparr>
           in notify_students_on_new_material (st\<lparr>materials := materials st @ [m]\<rparr>) m True)
      | Some k \<Rightarrow>
          (if list_ex (\<lambda>x. mat_pk x = Some k) (materials st) then
             notify_students_on_new_material
               (st\<lparr>materials := map (\<lambda>x. if mat_pk x = Some k then instance else x) (materials st)\<rparr>)
               instance False
           else notify_students_on_new_material
                  (st\<lparr>materials := materials st @ [instance]\<rparr>) instance True))"

section \<open>courses/views.py\<close>

definition enroll ::
  "state \<Rightarrow> request \<Rightarrow> nat \<Rightarrow> nat \<Rightarrow> error + (state \<times> response \<times> (level \<times> string) list)" where
  "enroll st request pk now =
     (case req_user request of
        AnonymousUser \<Rightarrow> Inr (st, Redirect_login, [])
      | Authenticated u \<Rightarrow>
          if req_method request \<noteq> POST then Inr (st, Redirect_pk ''course-detail'' pk, [])
          else (case get_course st pk of
             None \<Rightarrow> Inr (st, Http404, [])
           | Some crs \<Rightarrow>
               if \<not> is_student u then
                 Inr (st, Redirect_pk ''course-detail'' pk,
                      [(ERROR, ''Only students can enrol in courses.'')])
               else if is_full st crs then
                 Inr (st, Redirect_pk ''course-detail'' pk, [(ERROR, ''This course is full.'')])
               else (case Enrollment_get_or_create st u crs now of
                  Inl err \<Rightarrow> Inl err
                | Inr (st1, enrollment, created) \<Rightarrow>
                    if \<not> created then
                      (if status enrollment = BLOCKED then
                         Inr (st1, Redirect_pk ''course-detail'' pk,
                              [(ERROR, ''You have been blocked from this course.'')])
                       else if status enrollment = ACTIVE then
                         Inr (st1, Redirect_pk ''course-detail'' pk,
                              [(INFO, ''You are already enrolled in this course.'')])
                       else (case Enrollment_save st1
                                    (enrollment\<lparr>status := ACTIVE, dropped_at := None\<rparr>) of
                          Inl err \<Rightarrow> Inl err
                        | Inr st2 \<Rightarrow>
                            Inr (st2, Redirect_pk ''course-detail'' pk,
                                 [(SUCCESS, ''Re-enrolled in '' @ course_title crs @ ''.'')])))
                    else
                      Inr (st1, Redirect_pk ''course-detail'' pk,
                           [(SUCCESS, ''Successfully enrolled in '' @ course_title crs @ ''.'')]))))"

definition unenroll ::
  "state \<Rightarrow> request \<Rightarrow> nat \<Rightarrow> nat \<Rightarrow> error + (state \<times> response \<times> (level \<times> string) list)" where
  "unenroll st request pk now =
     (case req_user request of
        AnonymousUser \<Rightarrow> Inr (st, Redirect_login, [])
      | Authenticated u \<Rightarrow>
          if req_method request \<noteq> POST then Inr (st, Redirect_pk ''course-detail'' pk, [])
          else (case filter (\<lambda>e. student_id e = user_pk u \<and> enr_course_id e = pk
                                  \<and> status e = ACTIVE) (enrollments st) of
             [] \<Rightarrow> Inr (st, Http404, [])
           | [enrollment] \<Rightarrow>
               (case Enrollment_save st (enrollment\<lparr>status := DROPPED, dropped_at := Some now\<rparr>) of
                  Inl err \<Rightarrow> Inl err
                | Inr st1 \<Rightarrow>
                    Inr (st1, Redirect ''course-list'',
                         [(SUCCESS, ''You have unenrolled from the course.'')]))
           | _ \<Rightarrow> Inl MultipleObjectsReturned))"

section \<open>Query sets\<close>

text \<open>\<^verbatim>\<open>room.messages\<close>: the messages whose room is the given one.\<close>

definition room_messages :: "state \<Rightarrow> chat_room \<Rightarrow> chat_message list" where
  "room_messages st room = filter (\<lambda>m. msg_room_id m = room_pk room) (messages st)"

text \<open>\<^verbatim>\<open>ChatRoom.objects.get_or_create(course_id, room_type=COURSE, defaults={'name': ...})\<close>.
  The room table has a one-to-one column to the course: an insert fails when the course
  is missing or already has a room.\<close>

definition ChatRoom_get_or_create ::
  "state \<Rightarrow> nat \<Rightarrow> string \<Rightarrow> nat \<Rightarrow> error + (state \<times> chat_room \<times> bool)" where
  "ChatRoom_get_or_create st cid default_name now =
     (case filter (\<lambda>r. room_course_id r = Some cid \<and> room_kind r = COURSE) (rooms st) of
        [] \<Rightarrow>
          (if get_course st cid = None \<or> list_ex (\<lambda>r. room_course_id r = Some cid) (rooms st)
           then Inl IntegrityError
           else (let room = \<lparr>room_pk = next_pk (map room_pk (rooms st)),
                              room_name = default_name, room_kind = COURSE,
                              room_course_id = Some cid, participants = {},
                              created_at = now\<rparr>
                 in Inr (st\<lparr>rooms := rooms st @ [room]\<rparr>, room, True)))
      | [room] \<Rightarrow> Inr (st, room, False)
      | _ \<Rightarrow> Inl MultipleObjectsReturned)"

section \<open>chat/consumers.py\<close>

text \<open>A consumer instance: its channel, \<^verbatim>\<open>scope['user']\<close>, and the identifier captured
  from the URL (\<^verbatim>\<open>room_id\<close> of a direct consumer, \<^verbatim>\<open>course_id\<close> of a group consumer),
  a string of digits.\<close>

record consumer =
  channel_name :: string
  scope_usr :: scope_user
  url_id :: string

datatype handshake = Accepted | Closed

datatype json = JString string | JNumber int | JBool bool | JNull

definition group_add :: "state \<Rightarrow> string \<Rightarrow> string \<Rightarrow> state" where
  "group_add st grp ch = st\<lparr>groups := (groups st)(grp := insert ch (groups st grp))\<rparr>"

definition group_discard :: "state \<Rightarrow> string \<Rightarrow> string \<Rightarrow> state" where
  "group_discard st grp ch = st\<lparr>groups := (groups st)(grp := groups st grp - {ch})\<rparr>"

text \<open>The handler \<^verbatim>\<open>chat_message\<close> of both consumers forwards the four fields of the event.\<close>

definition chat_message :: "frame \<Rightarrow> frame" where
  "chat_message event =
     \<lparr>f_message = f_message event, f_sender_id = f_sender_id event,
      f_sender_username = f_sender_username event, f_timestamp = f_timestamp event\<rparr>"

text \<open>\<^verbatim>\<open>channel_layer.group_send\<close>: the event reaches every channel of the group, whose
  consumer handles it with \<^verbatim>\<open>chat_message\<close>.\<close>

definition group_send :: "state \<Rightarrow> string \<Rightarrow> frame \<Rightarrow> state" where
  "group_send st grp event =
     st\<lparr>sent_frames := (\<lambda>ch. if ch \<in> groups st grp then sent_frames st ch @ [chat_message event]
                               else sent_frames st ch)\<rparr>"

definition dm_group_name :: "consumer \<Rightarrow> string" where
  "dm_group_name c = ''dm_'' @ url_id c"

definition course_group_name :: "consumer \<Rightarrow> string" where
  "course_group_name c = ''course_chat_'' @ url_id c"

subsection \<open>DirectChatConsumer\<close>

definition is_participant :: "state \<Rightarrow> consumer \<Rightarrow> user \<Rightarrow> bool" where
  "is_participant st c u =
     list_ex (\<lambda>r. room_pk r = int_str (url_id c) \<and> user_pk u \<in> participants r) (rooms st)"

definition DirectChatConsumer_connect :: "state \<Rightarrow> consumer \<Rightarrow> handshake \<times> state" where
  "DirectChatConsumer_connect st c =
     (case scope_usr c of
        AnonymousUser \<Rightarrow> (Closed, st)
      | Authenticated u \<Rightarrow>
          if \<not> is_participant st c u then (Closed, st)
          else (Accepted, group_add st (dm_group_name c) (channel_name c)))"

definition DirectChatConsumer_disconnect :: "state \<Rightarrow> consumer \<Rightarrow> state" where
  "DirectChatConsumer_disconnect st c = group_discard st (dm_group_name c) (channel_name c)"



subsection \<open>GroupChatConsumer\<close>

definition has_course_access :: "state \<Rightarrow> consumer \<Rightarrow> user \<Rightarrow> bool" where
  "has_course_access st c u =
     (case get_course st (int_str (url_id c)) of
        None \<Rightarrow> False
      | Some crs \<Rightarrow>
          if teacher_id crs = user_pk u then True
          else list_ex (\<lambda>e. student_id e = user_pk u \<and> enr_course_id e = course_pk crs
                             \<and> status e = ACTIVE) (enrollments st))"

definition GroupChatConsumer_connect :: "state \<Rightarrow> consumer \<Rightarrow> handshake \<times> state" where
  "GroupChatConsumer_connect st c =
     (case scope_usr c of
        AnonymousUser \<Rightarrow> (Closed, st)
      | Authenticated u \<Rightarrow>
          if \<not> has_course_access st c u then (Closed, st)
          else (Accepted, group_add st (course_group_name c) (channel_name c)))"

definition GroupChatConsumer_disconnect :: "state \<Rightarrow> consumer \<Rightarrow> state" where
  "GroupChatConsumer_disconnect st c = group_discard st (course_group_name c) (channel_name c)"

definition GroupChatConsumer_save_message ::
  "state \<Rightarrow> consumer \<Rightarrow> user \<Rightarrow> string \<Rightarrow> nat \<Rightarrow> error + (state \<times> chat_message)" where
  "GroupChatConsumer_save_message st c u text now =
     (case ChatRoom_get_or_create st (int_str (url_id c))
             (''Course '' @ url_id c @ '' Chat'') now of
        Inl err \<Rightarrow> Inl err
      | Inr (st1, room, created) \<Rightarrow>
          (let m = \<lparr>msg_pk = next_pk (map msg_pk (messages st1)),
                    msg_room_id = room_pk room, sender_id = user_pk u,
                    content = text, timestamp = now, msg_is_read = False\<rparr>
           in Inr (st1\<lparr>messages := messages st1 @ [m]\<rparr>, m)))"

definition GroupChatConsumer_receive_json ::
  "state \<Rightarrow> consumer \<Rightarrow> (string \<rightharpoonup> json) \<Rightarrow> nat \<Rightarrow> error + state" where
  "GroupChatConsumer_receive_json st c cont now =
     (case (case cont ''message'' of None \<Rightarrow> JString [] | Some v \<Rightarrow> v) of
        JString s \<Rightarrow>
          (let message_text = strip s in
           if message_text = [] then Inr st
           else (case scope_usr c of
              AnonymousUser \<Rightarrow> Inl ValueError
            | Authenticated u \<Rightarrow>
                (case GroupChatConsumer_save_message st c u message_text now of
                   Inl err \<Rightarrow> Inl err
                 | Inr (st1, m) \<Rightarrow>
                     Inr (group_send st1 (course_group_name c)
                            \<lparr>f_message = message_text, f_sender_id = user_pk u,
                             f_sender_username = username u,
                             f_timestamp = Isoformat (timestamp m)\<rparr>))))
      | _ \<Rightarrow> Inl AttributeError)"

section \<open>chat/views.py\<close>

text \<open>The direct rooms both users take part in, most recently created first (the
  default ordering of ChatRoom).\<close>

definition dm_rooms :: "state \<Rightarrow> nat \<Rightarrow> nat \<Rightarrow> chat_room list" where
  "dm_rooms st a b =
     order_by_desc created_at
       (filter (\<lambda>r. b \<in> participants r)
          (filter (\<lambda>r. room_kind r = DIRECT \<and> a \<in> participants r) (rooms st)))"

definition DirectMessageView_get :: "state \<Rightarrow> request \<Rightarrow> nat \<Rightarrow> nat \<Rightarrow> state \<times> response" where
  "DirectMessageView_get st request user_id now =
     (case req_user request of
        AnonymousUser \<Rightarrow> (st, Redirect_login)
      | Authenticated u \<Rightarrow>
          (case get_user st user_id of
             None \<Rightarrow> (st, Http404)
           | Some other_user \<Rightarrow>
               if user_pk other_user = user_pk u then (st, Redirect ''chat-room-list'')
               else (let (st1, room) =
                       (case first (dm_rooms st (user_pk u) (user_pk other_user)) of
                          Some r \<Rightarrow> (st, r)
                        | None \<Rightarrow>
                            (let r = \<lparr>room_pk = next_pk (map room_pk (rooms st)),
                                       room_name = username u @ '' & '' @ username other_user,
                                       room_kind = DIRECT, room_course_id = None,
                                       participants = {user_pk u, user_pk other_user},
                                       created_at = now\<rparr>
                             in (st\<lparr>rooms := rooms st @ [r]\<rparr>, r)))
                     in (st1, Render_chat_room room
                                (take 100 (order_by timestamp (room_messages st1 room)))))))"

text \<open>A sequence of requests to the direct-message view, each with the requesting
  user, the target user id and the time of the request.\<close>

fun dm_requests :: "state \<Rightarrow> (request \<times> nat \<times> nat) list \<Rightarrow> state" where
  "dm_requests st [] = st"
| "dm_requests st ((rq, user_id, now) # rs) =
     dm_requests (fst (DirectMessageView_get st rq user_id now)) rs"

definition CourseGroupChatView_get ::
  "state \<Rightarrow> request \<Rightarrow> nat \<Rightarrow> nat \<Rightarrow> error + (state \<times> response)" where
  "CourseGroupChatView_get st request cid now =
     (case req_user request of
        AnonymousUser \<Rightarrow> Inr (st, Redirect_login)
      | Authenticated u \<Rightarrow>
          (case get_course st cid of
             None \<Rightarrow> Inr (st, Http404)
           | Some crs \<Rightarrow>
               if \<not> (teacher_id crs = user_pk u
                      \<or> list_ex (\<lambda>e. student_id e = user_pk u \<and> enr_course_id e = course_pk crs
                                       \<and> status e = ACTIVE) (enrollments st))
               then Inr (st, Redirect ''course-list'')
               else (case ChatRoom_get_or_create st (course_pk crs)
                            (course_code crs @ '' - Group Chat'') now of
                  Inl err \<Rightarrow> Inl err
                | Inr (st1, room, created) \<Rightarrow>
                    (let room' = (if user_pk u \<in> participants room then room
                                  else room\<lparr>participants := insert (user_pk u) (participants room)\<rparr>);
                         st2 = st1\<lparr>rooms := map (\<lambda>r. if room_pk r = room_pk room then room' else r)
                                                (rooms st1)\<rparr>
                     in Inr (st2, Render_chat_room room'
                                    (take 100 (order_by timestamp (room_messages st2 room'))))))))"

section \<open>chat/serializers.py\<close>

text \<open>\<^verbatim>\<open>ChatRoomDetailSerializer.get_messages\<close>, before the rows are serialized.\<close>

definition get_messages :: "state \<Rightarrow> chat_room \<Rightarrow> chat_message list" where
  "get_messages st obj = rev (take 50 (order_by_desc timestamp (room_messages st obj)))"

section \<open>Example states\<close>

text \<open>
  A small instance used to run the operations: the teacher Ada (1), the students Xavier
  (2), Yara (3) and Zed (4), the course CS101 (1) with room for two students, a direct
  room between Xavier and Yara, and three open channels.
\<close>

definition empty_state :: state where
  "empty_state =
     \<lparr>users = [], courses = [], enrollments = [], materials = [], notifications = [],
      rooms = [], messages = [], task_always_eager = True, task_queue = [],
      notification_calls = [], groups = (\<lambda>_. {}), sent_frames = (\<lambda>_. [])\<rparr>"

definition teacher_t :: user where
  "teacher_t = \<lparr>user_pk = 1, username = ''ada'', first_name = ''Ada'',
                last_name = ''Byron'', role = TEACHER\<rparr>"

definition student_x :: user where
  "student_x = \<lparr>user_pk = 2, username = ''xavier'', first_name = [],
                last_name = [], role = STUDENT\<rparr>"

definition student_y :: user where
  "student_y = \<lparr>user_pk = 3, username = ''yara'', first_name = ''Yara'',
                last_name = ''Diaz'', role = STUDENT\<rparr>"

definition student_z :: user where
  "student_z = \<lparr>user_pk = 4, username = ''zed'', first_name = ''Zed'',
                last_name = [], role = STUDENT\<rparr>"

definition course_c :: course where
  "course_c = \<lparr>course_pk = 1, teacher_id = 1, course_title = ''Logic'',
               course_code = ''CS101'', max_students = 2\<rparr>"

definition campus :: state where
  "campus = empty_state\<lparr>users := [teacher_t, student_x, student_y, student_z],
                        courses := [course_c]\<rparr>"

definition row :: "nat \<Rightarrow> nat \<Rightarrow> status \<Rightarrow> nat option \<Rightarrow> enrollment" where
  "row k sid stat d = \<lparr>enr_pk = k, student_id = sid, enr_course_id = 1, status = stat,
                      enrolled_at = 3, dropped_at = d\<rparr>"

definition campus_with :: "enrollment list \<Rightarrow> state" where
  "campus_with es = campus\<lparr>enrollments := es\<rparr>"

definition week_one :: course_material where
  "week_one = \<lparr>mat_pk = None, mat_course_id = 1, mat_title = ''Week 1''\<rparr>"

definition ws :: "string \<Rightarrow> scope_user \<Rightarrow> string \<Rightarrow> consumer" where
  "ws ch u ident = \<lparr>channel_name = ch, scope_usr = u, url_id = ident\<rparr>"

definition dm_room :: chat_room where
  "dm_room = \<lparr>room_pk = 1, room_name = ''xavier & yara'', room_kind = DIRECT,
              room_course_id = None, participants = {2, 3}, created_at = 4\<rparr>"

definition chat_campus :: state where
  "chat_campus = campus\<lparr>enrollments := [row 1 2 ACTIVE None, row 2 3 DROPPED (Some 5)],
                        rooms := [dm_room]\<rparr>"



definition msg_at :: "nat \<Rightarrow> chat_message" where
  "msg_at i = \<lparr>msg_pk = i, msg_room_id = 1, sender_id = 2, content = ''hi'', timestamp = i,
              msg_is_read = False\<rparr>"

definition busy_chat :: state where
  "busy_chat = chat_campus\<lparr>messages := map msg_at [1..<102]\<rparr>"

definition row_at :: "nat \<Rightarrow> nat \<Rightarrow> status \<Rightarrow> nat \<Rightarrow> enrollment" where
  "row_at k sid stat t = \<lparr>enr_pk = k, student_id = sid, enr_course_id = 1, status = stat,
                         enrolled_at = t, dropped_at = None\<rparr>"

section \<open>Properties of enrollment and notification\<close>

lemma get_course_pk: "get_course st pk = Some crs \<Longrightarrow> course_pk crs = pk"
  by (auto simp: get_course_def find_Some_iff)

lemma notify_teacher_not_created: "notify_teacher_on_enrollment st e False = Inr st"
  by (simp add: notify_teacher_on_enrollment_def)

lemma Enrollment_save_eq:
  "Enrollment_save st e =
     Inr (st\<lparr>enrollments := map (\<lambda>x. if enr_pk x = enr_pk e then e else x) (enrollments st)\<rparr>)"
  by (simp add: Enrollment_save_def notify_teacher_not_created)

lemma delay_tables:
  "users (delay st t) = users st" "courses (delay st t) = courses st"
  "enrollments (delay st t) = enrollments st" "rooms (delay st t) = rooms st"
  "messages (delay st t) = messages st" "materials (delay st t) = materials st"
  "task_always_eager (delay st t) = task_always_eager st"
  by (cases t; simp add: delay_def create_notification_def notify_course_students_def Let_def)+


lemma Enrollment_create_active:
  assumes "get_course st cid = Some crs" and "get_user st sid = Some student"
  shows "Enrollment_create st sid cid ACTIVE now =
     (let e = \<lparr>enr_pk = next_pk (map enr_pk (enrollments st)), student_id = sid,
                enr_course_id = cid, status = ACTIVE, enrolled_at = now, dropped_at = None\<rparr>
      in Inr (delay (st\<lparr>enrollments := enrollments st @ [e]\<rparr>)
                (Create_notification (teacher_id crs) ''enrollment''
                   (''New enrollment in '' @ course_code crs)
                   ((if get_full_name student \<noteq> [] then get_full_name student
                     else username student)
                      @ '' has enrolled in '' @ course_title crs @ ''.'')
                   (''/courses/'' @ str_nat (course_pk crs) @ ''/students/'')), e))"
  using assms
  by (simp add: Enrollment_create_def notify_teacher_on_enrollment_def Let_def
      get_course_def get_user_def)



lemma filter_conj_active:
  "filter (\<lambda>e. student_id e = a \<and> enr_course_id e = b \<and> status e = ACTIVE) xs =
   filter (\<lambda>e. status e = ACTIVE) (filter (\<lambda>e. student_id e = a \<and> enr_course_id e = b) xs)"
  by (induction xs) auto

lemma enroll_existing_row:
  assumes "req_user request = Authenticated u" and "req_method request = POST"
    and "is_student u" and "get_course st pk = Some crs" and "\<not> is_full st crs"
    and "filter (\<lambda>e. student_id e = user_pk u \<and> enr_course_id e = pk) (enrollments st) = [e]"
  shows "enroll st request pk now =
     (if status e = BLOCKED then
        Inr (st, Redirect_pk ''course-detail'' pk,
             [(ERROR, ''You have been blocked from this course.'')])
      else if status e = ACTIVE then
        Inr (st, Redirect_pk ''course-detail'' pk,
             [(INFO, ''You are already enrolled in this course.'')])
      else
        Inr (st\<lparr>enrollments :=
                 map (\<lambda>x. if enr_pk x = enr_pk e then e\<lparr>status := ACTIVE, dropped_at := None\<rparr>
                           else x) (enrollments st)\<rparr>,
             Redirect_pk ''course-detail'' pk,
             [(SUCCESS, ''Re-enrolled in '' @ course_title crs @ ''.'')]))"
proof -
  have pk: "course_pk crs = pk" using assms(4) by (rule get_course_pk)
  have goc: "Enrollment_get_or_create st u crs now = Inr (st, e, False)"
    using assms(6) by (simp add: Enrollment_get_or_create_def pk)
  show ?thesis
    using assms(1-5) by (simp add: enroll_def goc Enrollment_save_eq)
qed

lemma enroll_new_row:
  assumes "req_user request = Authenticated u" and "req_method request = POST"
    and "is_student u" and "get_course st pk = Some crs" and "\<not> is_full st crs"
    and "filter (\<lambda>e. student_id e = user_pk u \<and> enr_course_id e = pk) (enrollments st) = []"
    and "get_user st (user_pk u) = Some student"
  shows "enroll st request pk now =
     (let e = \<lparr>enr_pk = next_pk (map enr_pk (enrollments st)), student_id = user_pk u,
                enr_course_id = pk, status = ACTIVE, enrolled_at = now, dropped_at = None\<rparr>
      in Inr (delay (st\<lparr>enrollments := enrollments st @ [e]\<rparr>)
                (Create_notification (teacher_id crs) ''enrollment''
                   (''New enrollment in '' @ course_code crs)
                   ((if get_full_name student \<noteq> [] then get_full_name student
                     else username student)
                      @ '' has enrolled in '' @ course_title crs @ ''.'')
                   (''/courses/'' @ str_nat pk @ ''/students/'')),
              Redirect_pk ''course-detail'' pk,
              [(SUCCESS, ''Successfully enrolled in '' @ course_title crs @ ''.'')]))"
proof -
  have pk: "course_pk crs = pk" using assms(4) by (rule get_course_pk)
  have cr: "get_course st (course_pk crs) = Some crs" using assms(4) pk by simp
  have goc: "Enrollment_get_or_create st u crs now =
     (let e = \<lparr>enr_pk = next_pk (map enr_pk (enrollments st)), student_id = user_pk u,
                enr_course_id = pk, status = ACTIVE, enrolled_at = now, dropped_at = None\<rparr>
      in Inr (delay (st\<lparr>enrollments := enrollments st @ [e]\<rparr>)
                (Create_notification (teacher_id crs) ''enrollment''
                   (''New enrollment in '' @ course_code crs)
                   ((if get_full_name student \<noteq> [] then get_full_name student
                     else username student)
                      @ '' has enrolled in '' @ course_title crs @ ''.'')
                   (''/courses/'' @ str_nat pk @ ''/students/'')), e, True))"
    using assms(6) Enrollment_create_active [OF cr assms(7), of now]
    by (simp add: Enrollment_get_or_create_def pk Let_def)
  show ?thesis
    using assms(1-5) by (simp add: enroll_def goc Let_def)
qed

lemma unenroll_active_row:
  assumes "req_user request = Authenticated u" and "req_method request = POST"
    and "filter (\<lambda>e. student_id e = user_pk u \<and> enr_course_id e = pk) (enrollments st) = [e]"
    and "status e = ACTIVE"
  shows "unenroll st request pk now =
     Inr (st\<lparr>enrollments :=
              map (\<lambda>x. if enr_pk x = enr_pk e then e\<lparr>status := DROPPED, dropped_at := Some now\<rparr>
                        else x) (enrollments st)\<rparr>,
          Redirect ''course-list'', [(SUCCESS, ''You have unenrolled from the course.'')])"
  using assms by (simp add: unenroll_def filter_conj_active Enrollment_save_eq)

lemma enroll_full:
  assumes "req_user request = Authenticated u" and "req_method request = POST"
    and "is_student u" and "get_course st pk = Some crs" and "is_full st crs"
  shows "enroll st request pk now =
     Inr (st, Redirect_pk ''course-detail'' pk, [(ERROR, ''This course is full.'')])"
  using assms by (simp add: enroll_def)


lemma get_course_courses: "courses st' = courses st \<Longrightarrow> get_course st' pk = get_course st pk"
  by (simp add: get_course_def)

lemma get_user_users: "users st' = users st \<Longrightarrow> get_user st' pk = get_user st pk"
  by (simp add: get_user_def)

lemma delay_eager_bulk:
  "task_always_eager st \<Longrightarrow>
   delay st (Notify_course_students cid ty ttl msg lnk) =
     (let ns = map (\<lambda>sid. \<lparr>recipient_id = sid, notification_type = ty, title = ttl,
                             message = msg, link = lnk, is_read = False\<rparr>)
                 (map student_id (order_by_desc enrolled_at
                    (filter (\<lambda>e. enr_course_id e = cid \<and> status e = ACTIVE) (enrollments st))))
      in st\<lparr>notifications := notifications st @ ns,
            notification_calls := notification_calls st @ [Bulk_create ns]\<rparr>)"
  by (simp add: delay_def notify_course_students_def Let_def)

lemma notify_students_not_created: "notify_students_on_new_material st m False = Inr st"
  by (simp add: notify_students_on_new_material_def)

lemma unique_pair_count:
  "distinct (map (\<lambda>e. (student_id e, enr_course_id e)) xs) \<Longrightarrow>
   length (filter (\<lambda>e. student_id e = s \<and> enr_course_id e = c) xs) \<le> 1"
proof (induction xs)
  case Nil
  then show ?case by simp
next
  case (Cons x xs)
  show ?case
  proof (cases "student_id x = s \<and> enr_course_id x = c")
    case True
    have "filter (\<lambda>e. student_id e = s \<and> enr_course_id e = c) xs = []"
    proof (rule ccontr)
      assume "filter (\<lambda>e. student_id e = s \<and> enr_course_id e = c) xs \<noteq> []"
      then obtain y where "y \<in> set xs" "student_id y = s" "enr_course_id y = c"
        by (auto simp: filter_empty_conv)
      with True have "(student_id x, enr_course_id x) \<in> (\<lambda>e. (student_id e, enr_course_id e)) ` set xs"
        by force
      with Cons.prems show False by simp
    qed
    with True show ?thesis by simp
  next
    case False
    then have "filter (\<lambda>e. student_id e = s \<and> enr_course_id e = c) (x # xs) =
               filter (\<lambda>e. student_id e = s \<and> enr_course_id e = c) xs"
      by auto
    moreover have "distinct (map (\<lambda>e. (student_id e, enr_course_id e)) xs)"
      using Cons.prems by simp
    ultimately show ?thesis using Cons.IH by simp
  qed
qed

lemma unique_pair_active_count:
  assumes "distinct (map (\<lambda>e. (student_id e, enr_course_id e)) xs)"
  shows "length (filter (\<lambda>sid. sid = s)
            (map student_id (filter (\<lambda>e. enr_course_id e = c \<and> status e = ACTIVE) xs))) =
         (if \<exists>e\<in>set xs. student_id e = s \<and> enr_course_id e = c \<and> status e = ACTIVE
          then 1 else 0)"
proof -
  let ?act = "filter (\<lambda>e. student_id e = s \<and> enr_course_id e = c \<and> status e = ACTIVE) xs"
  have eq: "length (filter (\<lambda>sid. sid = s)
            (map student_id (filter (\<lambda>e. enr_course_id e = c \<and> status e = ACTIVE) xs))) =
        length ?act"
    by (induction xs) auto
  have "length ?act = length (filter (\<lambda>e. status e = ACTIVE)
                            (filter (\<lambda>e. student_id e = s \<and> enr_course_id e = c) xs))"
    by (simp only: filter_conj_active)
  also have "\<dots> \<le> length (filter (\<lambda>e. student_id e = s \<and> enr_course_id e = c) xs)"
    by (rule length_filter_le)
  finally have "length ?act \<le> length (filter (\<lambda>e. student_id e = s \<and> enr_course_id e = c) xs)" .
  with unique_pair_count [OF assms, of s c] have le: "length ?act \<le> 1" by linarith
  show ?thesis
  proof (cases "\<exists>e\<in>set xs. student_id e = s \<and> enr_course_id e = c \<and> status e = ACTIVE")
    case True
    then have "?act \<noteq> []" by (auto simp: filter_empty_conv)
    then have "length ?act \<ge> 1" by (cases ?act) auto
    with le eq True show ?thesis by simp
  next
    case False
    then have "?act = []" by (auto simp: filter_empty_conv)
    with eq False show ?thesis by simp
  qed
qed


lemmas example_defs = campus_def empty_state_def teacher_t_def student_x_def student_y_def
  student_z_def course_c_def post_as_def get_as_def


lemmas campus_with_defs = campus_with_def row_def example_defs

lemma enrolled_count_campus_with:
  "enrolled_count (campus_with es) course_c =
     length (filter (\<lambda>e. enr_course_id e = 1 \<and> status e = ACTIVE) es)"
  by (simp add: enrolled_count_def campus_with_def course_c_def)

lemma get_course_campus_with: "get_course (campus_with es) 1 = Some course_c"
  by (simp add: campus_with_defs get_course_def)

text \<open>
  Claim C10. When the enroll view finds the student's existing row with status dropped
  (the course not being full), it flips that row back to active and creates no
  notification: the notification table, the calls on the notification manager and the
  task queue are unchanged, because the receiver only acts when a row is created.
\<close>

theorem reactivation_creates_no_notification:
  assumes "req_user request = Authenticated u" and "req_method request = POST"
    and "is_student u" and "get_course st pk = Some crs" and "\<not> is_full st crs"
    and "filter (\<lambda>e. student_id e = user_pk u \<and> enr_course_id e = pk) (enrollments st) = [e]"
    and "status e = DROPPED"
  shows "\<exists>st'. enroll st request pk now =
            Inr (st', Redirect_pk ''course-detail'' pk,
                 [(SUCCESS, ''Re-enrolled in '' @ course_title crs @ ''.'')]) \<and>
           enrollments st' =
             map (\<lambda>x. if enr_pk x = enr_pk e then e\<lparr>status := ACTIVE, dropped_at := None\<rparr>
                       else x) (enrollments st) \<and>
           notifications st' = notifications st \<and>
           notification_calls st' = notification_calls st \<and>
           task_queue st' = task_queue st"
  using enroll_existing_row [OF assms(1-6), of now] assms(7) by simp

theorem reactivation_creates_no_notification_witness:
  "is_student student_x \<and> get_course (campus_with [row 1 2 DROPPED (Some 5)]) 1 = Some course_c \<and>
   \<not> is_full (campus_with [row 1 2 DROPPED (Some 5)]) course_c \<and>
   (\<exists>st'. enroll (campus_with [row 1 2 DROPPED (Some 5)]) (post_as student_x) 1 9 =
            Inr (st', Redirect_pk ''course-detail'' 1, [(SUCCESS, ''Re-enrolled in Logic.'')]) \<and>
          enrollments st' = [row 1 2 ACTIVE None] \<and> notifications st' = [] \<and>
          notification_calls st' = [] \<and> task_queue st' = [])"
proof -
  let ?st = "campus_with [row 1 2 DROPPED (Some 5)]"
  have a: "req_user (post_as student_x) = Authenticated student_x"
    and b: "req_method (post_as student_x) = POST" by (simp_all add: post_as_def)
  have c: "is_student student_x" by (simp add: is_student_def student_x_def)
  have d: "get_course ?st 1 = Some course_c" by (rule get_course_campus_with)
  have e: "\<not> is_full ?st course_c"
    by (simp add: is_full_def enrolled_count_campus_with) (simp add: row_def course_c_def)
  have f: "filter (\<lambda>e. student_id e = user_pk student_x \<and> enr_course_id e = 1) (enrollments ?st)
             = [row 1 2 DROPPED (Some 5)]"
    by (simp add: campus_with_defs)
  have g: "status (row 1 2 DROPPED (Some 5)) = DROPPED" by (simp add: row_def)
  from reactivation_creates_no_notification [OF a b c d e f g, of 9]
  show ?thesis using c d e by (simp add: campus_with_defs)
qed

text \<open>
  Claim C3, as stated, fails: the capacity check of the enroll view runs before the
  look-up of the existing row, so a dropped student is not re-activated while the course
  is full.
\<close>

theorem reenroll_when_full_counterexample:
  "is_student student_x \<and>
   enrollments (campus_with [row 1 2 DROPPED (Some 5), row 2 3 ACTIVE None, row 3 4 ACTIVE None]) =
     [row 1 2 DROPPED (Some 5), row 2 3 ACTIVE None, row 3 4 ACTIVE None] \<and>
   enroll (campus_with [row 1 2 DROPPED (Some 5), row 2 3 ACTIVE None, row 3 4 ACTIVE None])
          (post_as student_x) 1 9 =
     Inr (campus_with [row 1 2 DROPPED (Some 5), row 2 3 ACTIVE None, row 3 4 ACTIVE None],
          Redirect_pk ''course-detail'' 1, [(ERROR, ''This course is full.'')])"
proof -
  let ?st = "campus_with [row 1 2 DROPPED (Some 5), row 2 3 ACTIVE None, row 3 4 ACTIVE None]"
  have a: "req_user (post_as student_x) = Authenticated student_x"
    and b: "req_method (post_as student_x) = POST" by (simp_all add: post_as_def)
  have c: "is_student student_x" by (simp add: is_student_def student_x_def)
  have d: "get_course ?st 1 = Some course_c" by (rule get_course_campus_with)
  have e: "is_full ?st course_c"
    by (simp add: is_full_def enrolled_count_campus_with) (simp add: row_def course_c_def)
  show ?thesis using enroll_full [OF a b c d e, of 9] c by (simp add: campus_with_def)
qed

text \<open>
  Claim C3, amended. For a student and a course: an enroll request without an existing
  row (course not full) appends one row with status active; unenroll turns the active
  row into dropped and sets dropped_at; an enroll request on a dropped row, while the
  course is not full, sets that same row to active and clears dropped_at, the number of
  rows being unchanged; an enroll request on a blocked row is answered with an error
  message and leaves the state unchanged.
\<close>

theorem enrollment_state_machine:
  assumes "req_user request = Authenticated u" and "req_method request = POST"
    and "is_student u" and "get_course st pk = Some crs"
  shows
    "(filter (\<lambda>e. student_id e = user_pk u \<and> enr_course_id e = pk) (enrollments st) = [] \<and>
      \<not> is_full st crs \<and> get_user st (user_pk u) = Some u \<longrightarrow>
        (\<exists>st' e. enroll st request pk now =
             Inr (st', Redirect_pk ''course-detail'' pk,
                  [(SUCCESS, ''Successfully enrolled in '' @ course_title crs @ ''.'')]) \<and>
           enrollments st' = enrollments st @ [e] \<and> student_id e = user_pk u \<and>
           enr_course_id e = pk \<and> status e = ACTIVE \<and> dropped_at e = None)) \<and>
     (\<forall>e. filter (\<lambda>e. student_id e = user_pk u \<and> enr_course_id e = pk) (enrollments st) = [e] \<and>
          status e = ACTIVE \<longrightarrow>
        (\<exists>st'. unenroll st request pk now =
             Inr (st', Redirect ''course-list'',
                  [(SUCCESS, ''You have unenrolled from the course.'')]) \<and>
           enrollments st' =
             map (\<lambda>x. if enr_pk x = enr_pk e
                       then e\<lparr>status := DROPPED, dropped_at := Some now\<rparr> else x)
                 (enrollments st))) \<and>
     (\<forall>e. filter (\<lambda>e. student_id e = user_pk u \<and> enr_course_id e = pk) (enrollments st) = [e] \<and>
          status e = DROPPED \<and> \<not> is_full st crs \<longrightarrow>
        (\<exists>st'. enroll st request pk now =
             Inr (st', Redirect_pk ''course-detail'' pk,
                  [(SUCCESS, ''Re-enrolled in '' @ course_title crs @ ''.'')]) \<and>
           enrollments st' =
             map (\<lambda>x. if enr_pk x = enr_pk e
                       then e\<lparr>status := ACTIVE, dropped_at := None\<rparr> else x)
                 (enrollments st) \<and>
           length (enrollments st') = length (enrollments st))) \<and>
     (\<forall>e. filter (\<lambda>e. student_id e = user_pk u \<and> enr_course_id e = pk) (enrollments st) = [e] \<and>
          status e = BLOCKED \<longrightarrow>
        (\<exists>msg. enroll st request pk now =
             Inr (st, Redirect_pk ''course-detail'' pk, [(ERROR, msg)])))"
proof (intro conjI allI impI)
  assume h: "filter (\<lambda>e. student_id e = user_pk u \<and> enr_course_id e = pk) (enrollments st) = [] \<and>
      \<not> is_full st crs \<and> get_user st (user_pk u) = Some u"
  then have nf: "\<not> is_full st crs"
    and em: "filter (\<lambda>e. student_id e = user_pk u \<and> enr_course_id e = pk) (enrollments st) = []"
    and gu: "get_user st (user_pk u) = Some u" by simp_all
  show "\<exists>st' e. enroll st request pk now =
             Inr (st', Redirect_pk ''course-detail'' pk,
                  [(SUCCESS, ''Successfully enrolled in '' @ course_title crs @ ''.'')]) \<and>
           enrollments st' = enrollments st @ [e] \<and> student_id e = user_pk u \<and>
           enr_course_id e = pk \<and> status e = ACTIVE \<and> dropped_at e = None"
    using enroll_new_row [OF assms(1-4) nf em gu, of now]
    by (simp add: Let_def delay_tables)
next
  fix e
  assume h: "filter (\<lambda>e. student_id e = user_pk u \<and> enr_course_id e = pk) (enrollments st) = [e] \<and>
          status e = ACTIVE"
  then show "\<exists>st'. unenroll st request pk now =
             Inr (st', Redirect ''course-list'',
                  [(SUCCESS, ''You have unenrolled from the course.'')]) \<and>
           enrollments st' =
             map (\<lambda>x. if enr_pk x = enr_pk e
                       then e\<lparr>status := DROPPED, dropped_at := Some now\<rparr> else x)
                 (enrollments st)"
    using unenroll_active_row [OF assms(1,2), of pk st e now] by simp
next
  fix e
  assume h: "filter (\<lambda>e. student_id e = user_pk u \<and> enr_course_id e = pk) (enrollments st) = [e] \<and>
          status e = DROPPED \<and> \<not> is_full st crs"
  then have nf: "\<not> is_full st crs"
    and r: "filter (\<lambda>e. student_id e = user_pk u \<and> enr_course_id e = pk) (enrollments st) = [e]"
    and d: "status e = DROPPED" by simp_all
  show "\<exists>st'. enroll st request pk now =
             Inr (st', Redirect_pk ''course-detail'' pk,
                  [(SUCCESS, ''Re-enrolled in '' @ course_title crs @ ''.'')]) \<and>
           enrollments st' =
             map (\<lambda>x. if enr_pk x = enr_pk e
                       then e\<lparr>status := ACTIVE, dropped_at := None\<rparr> else x)
                 (enrollments st) \<and>
           length (enrollments st') = length (enrollments st)"
    using enroll_existing_row [OF assms(1-4) nf r, of now] d by simp
next
  fix e
  assume h: "filter (\<lambda>e. student_id e = user_pk u \<and> enr_course_id e = pk) (enrollments st) = [e] \<and>
          status e = BLOCKED"
  then have r: "filter (\<lambda>e. student_id e = user_pk u \<and> enr_course_id e = pk) (enrollments st) = [e]"
    and b: "status e = BLOCKED" by simp_all
  show "\<exists>msg. enroll st request pk now =
             Inr (st, Redirect_pk ''course-detail'' pk, [(ERROR, msg)])"
  proof (cases "is_full st crs")
    case True
    then show ?thesis using enroll_full [OF assms(1-4), of now] by simp
  next
    case False
    then show ?thesis using enroll_existing_row [OF assms(1-4) False r, of now] b by simp
  qed
qed

theorem enrollment_state_machine_witness:
  "(\<exists>st' e. enroll (campus_with []) (post_as student_x) 1 9 =
       Inr (st', Redirect_pk ''course-detail'' 1, [(SUCCESS, ''Successfully enrolled in Logic.'')]) \<and>
     enrollments st' = [e] \<and> student_id e = 2 \<and> status e = ACTIVE \<and> dropped_at e = None) \<and>
   (\<exists>st'. unenroll (campus_with [row 1 2 ACTIVE None]) (post_as student_x) 1 9 =
       Inr (st', Redirect ''course-list'', [(SUCCESS, ''You have unenrolled from the course.'')]) \<and>
     enrollments st' = [row 1 2 DROPPED (Some 9)]) \<and>
   (\<exists>st'. enroll (campus_with [row 1 2 DROPPED (Some 5)]) (post_as student_x) 1 9 =
       Inr (st', Redirect_pk ''course-detail'' 1, [(SUCCESS, ''Re-enrolled in Logic.'')]) \<and>
     enrollments st' = [row 1 2 ACTIVE None]) \<and>
   (\<exists>msg. enroll (campus_with [row 1 2 BLOCKED None]) (post_as student_x) 1 9 =
       Inr (campus_with [row 1 2 BLOCKED None], Redirect_pk ''course-detail'' 1, [(ERROR, msg)]))"
proof -
  have a: "req_user (post_as student_x) = Authenticated student_x"
    and b: "req_method (post_as student_x) = POST" by (simp_all add: post_as_def)
  have c: "is_student student_x" by (simp add: is_student_def student_x_def)
  note T = enrollment_state_machine [OF a b c get_course_campus_with]
  have nf: "\<not> is_full (campus_with [row k 2 s d]) course_c" for k s d
    by (simp add: is_full_def enrolled_count_campus_with) (simp add: row_def course_c_def)
  have h1: "filter (\<lambda>e. student_id e = user_pk student_x \<and> enr_course_id e = 1)
              (enrollments (campus_with [])) = [] \<and>
            \<not> is_full (campus_with []) course_c \<and>
            get_user (campus_with []) (user_pk student_x) = Some student_x"
    by (simp add: is_full_def enrolled_count_campus_with)
       (simp add: campus_with_defs get_user_def)
  have p1: "\<exists>st' e. enroll (campus_with []) (post_as student_x) 1 9 =
       Inr (st', Redirect_pk ''course-detail'' 1, [(SUCCESS, ''Successfully enrolled in Logic.'')]) \<and>
     enrollments st' = [e] \<and> student_id e = 2 \<and> status e = ACTIVE \<and> dropped_at e = None"
    using T [of "[]" 9, THEN conjunct1, THEN mp, OF h1]
    by (simp add: campus_with_defs) blast
  have f: "filter (\<lambda>e. student_id e = user_pk student_x \<and> enr_course_id e = 1)
              (enrollments (campus_with [row 1 2 s d])) = [row 1 2 s d]" for s d
    by (simp add: campus_with_defs)
  have h2: "filter (\<lambda>e. student_id e = user_pk student_x \<and> enr_course_id e = 1)
              (enrollments (campus_with [row 1 2 ACTIVE None])) = [row 1 2 ACTIVE None] \<and>
            status (row 1 2 ACTIVE None) = ACTIVE"
    using f by (simp add: row_def)
  have p2: "\<exists>st'. unenroll (campus_with [row 1 2 ACTIVE None]) (post_as student_x) 1 9 =
       Inr (st', Redirect ''course-list'', [(SUCCESS, ''You have unenrolled from the course.'')]) \<and>
     enrollments st' = [row 1 2 DROPPED (Some 9)]"
    using T [of "[row 1 2 ACTIVE None]" 9, THEN conjunct2, THEN conjunct1, THEN spec, THEN mp, OF h2]
    by (simp add: campus_with_defs)
  have h3: "filter (\<lambda>e. student_id e = user_pk student_x \<and> enr_course_id e = 1)
              (enrollments (campus_with [row 1 2 DROPPED (Some 5)])) = [row 1 2 DROPPED (Some 5)] \<and>
            status (row 1 2 DROPPED (Some 5)) = DROPPED \<and>
            \<not> is_full (campus_with [row 1 2 DROPPED (Some 5)]) course_c"
    using f nf by (simp add: row_def)
  have p3: "\<exists>st'. enroll (campus_with [row 1 2 DROPPED (Some 5)]) (post_as student_x) 1 9 =
       Inr (st', Redirect_pk ''course-detail'' 1, [(SUCCESS, ''Re-enrolled in Logic.'')]) \<and>
     enrollments st' = [row 1 2 ACTIVE None]"
    using T [of "[row 1 2 DROPPED (Some 5)]" 9, THEN conjunct2, THEN conjunct2, THEN conjunct1,
             THEN spec, THEN mp, OF h3]
    by (simp add: campus_with_defs) blast
  have h4: "filter (\<lambda>e. student_id e = user_pk student_x \<and> enr_course_id e = 1)
              (enrollments (campus_with [row 1 2 BLOCKED None])) = [row 1 2 BLOCKED None] \<and>
            status (row 1 2 BLOCKED None) = BLOCKED"
    using f by (simp add: row_def)
  have p4: "\<exists>msg. enroll (campus_with [row 1 2 BLOCKED None]) (post_as student_x) 1 9 =
       Inr (campus_with [row 1 2 BLOCKED None], Redirect_pk ''course-detail'' 1, [(ERROR, msg)])"
    using T [of "[row 1 2 BLOCKED None]" 9, THEN conjunct2, THEN conjunct2, THEN conjunct2,
             THEN spec, THEN mp, OF h4] .
  from p1 p2 p3 p4 show ?thesis by blast
qed

lemma enroll_new_row_effect:
  assumes "req_user request = Authenticated u" and "req_method request = POST"
    and "is_student u" and "get_course st pk = Some crs" and "\<not> is_full st crs"
    and "filter (\<lambda>e. student_id e = user_pk u \<and> enr_course_id e = pk) (enrollments st) = []"
    and "get_user st (user_pk u) = Some student"
  shows "\<exists>st'. enroll st request pk now =
            Inr (st', Redirect_pk ''course-detail'' pk,
                 [(SUCCESS, ''Successfully enrolled in '' @ course_title crs @ ''.'')]) \<and>
           enrollments st' = enrollments st @
             [\<lparr>enr_pk = next_pk (map enr_pk (enrollments st)), student_id = user_pk u,
               enr_course_id = pk, status = ACTIVE, enrolled_at = now, dropped_at = None\<rparr>] \<and>
           courses st' = courses st \<and> users st' = users st"
  using enroll_new_row [OF assms, of now] by (simp add: Let_def delay_tables)

lemma no_row_filter:
  assumes "\<forall>e\<in>set es. enr_course_id e = pk \<longrightarrow> student_id e \<notin> S" and "s \<in> S"
  shows "filter (\<lambda>e. student_id e = s \<and> enr_course_id e = pk) es = []"
  using assms by (auto simp: filter_empty_conv)

text \<open>
  Claim C4. Under serial requests: in a course with max_students = 2 and no active
  enrollment, where the students X, Y and Z have no row yet, X's enroll request succeeds
  (active, count 1, not full), Y's succeeds (active, count 2, full), and Z's is rejected
  with the capacity error, the state being unchanged and holding no row for Z.
\<close>

theorem capacity_scenario:
  assumes crs: "get_course st pk = Some crs" and cap: "max_students crs = 2"
    and zero: "enrolled_count st crs = 0"
    and x: "is_student x" "get_user st (user_pk x) = Some x"
    and y: "is_student y" "get_user st (user_pk y) = Some y"
    and z: "is_student z"
    and ne: "user_pk x \<noteq> user_pk y" "user_pk z \<noteq> user_pk x" "user_pk z \<noteq> user_pk y"
    and fresh: "\<forall>e\<in>set (enrollments st). enr_course_id e = pk \<longrightarrow>
                  student_id e \<notin> {user_pk x, user_pk y, user_pk z}"
  shows "\<exists>st1 st2.
      enroll st (post_as x) pk t1 =
        Inr (st1, Redirect_pk ''course-detail'' pk,
             [(SUCCESS, ''Successfully enrolled in '' @ course_title crs @ ''.'')]) \<and>
      list_ex (\<lambda>e. student_id e = user_pk x \<and> enr_course_id e = pk \<and> status e = ACTIVE)
        (enrollments st1) \<and>
      enrolled_count st1 crs = 1 \<and> \<not> is_full st1 crs \<and>
      enroll st1 (post_as y) pk t2 =
        Inr (st2, Redirect_pk ''course-detail'' pk,
             [(SUCCESS, ''Successfully enrolled in '' @ course_title crs @ ''.'')]) \<and>
      list_ex (\<lambda>e. student_id e = user_pk y \<and> enr_course_id e = pk \<and> status e = ACTIVE)
        (enrollments st2) \<and>
      enrolled_count st2 crs = 2 \<and> is_full st2 crs \<and>
      enroll st2 (post_as z) pk t3 =
        Inr (st2, Redirect_pk ''course-detail'' pk, [(ERROR, ''This course is full.'')]) \<and>
      \<not> list_ex (\<lambda>e. student_id e = user_pk z \<and> enr_course_id e = pk) (enrollments st2)"
proof -
  have pk: "course_pk crs = pk" using crs by (rule get_course_pk)
  have ru: "req_user (post_as u) = Authenticated u" and rm: "req_method (post_as u) = POST" for u
    by (simp_all add: post_as_def)
  have nf0: "\<not> is_full st crs" using cap zero by (simp add: is_full_def)
  have fx: "filter (\<lambda>e. student_id e = user_pk x \<and> enr_course_id e = pk) (enrollments st) = []"
    by (rule no_row_filter [OF fresh]) simp
  from enroll_new_row_effect [OF ru rm x(1) crs nf0 fx x(2), of t1]
  obtain st1 where
    e1: "enroll st (post_as x) pk t1 =
           Inr (st1, Redirect_pk ''course-detail'' pk,
                [(SUCCESS, ''Successfully enrolled in '' @ course_title crs @ ''.'')])"
    and en1: "enrollments st1 = enrollments st @
             [\<lparr>enr_pk = next_pk (map enr_pk (enrollments st)), student_id = user_pk x,
               enr_course_id = pk, status = ACTIVE, enrolled_at = t1, dropped_at = None\<rparr>]"
    and c1: "courses st1 = courses st" and u1: "users st1 = users st"
    by blast
  have x1: "list_ex (\<lambda>e. student_id e = user_pk x \<and> enr_course_id e = pk \<and> status e = ACTIVE)
        (enrollments st1)"
    by (simp add: en1 list_ex_iff)
  have ec1: "enrolled_count st1 crs = 1"
    using zero by (simp add: enrolled_count_def en1 pk)
  have nf1: "\<not> is_full st1 crs" using cap ec1 by (simp add: is_full_def)
  have crs1: "get_course st1 pk = Some crs" using crs c1 by (simp add: get_course_def)
  have y1: "get_user st1 (user_pk y) = Some y" using y(2) u1 by (simp add: get_user_def)
  have fy0: "filter (\<lambda>e. student_id e = user_pk y \<and> enr_course_id e = pk) (enrollments st) = []"
    by (rule no_row_filter [OF fresh]) simp
  have fy: "filter (\<lambda>e. student_id e = user_pk y \<and> enr_course_id e = pk) (enrollments st1) = []"
    using fy0 ne(1) by (simp add: en1)
  from enroll_new_row_effect [OF ru rm y(1) crs1 nf1 fy y1, of t2]
  obtain st2 where
    e2: "enroll st1 (post_as y) pk t2 =
           Inr (st2, Redirect_pk ''course-detail'' pk,
                [(SUCCESS, ''Successfully enrolled in '' @ course_title crs @ ''.'')])"
    and en2: "enrollments st2 = enrollments st1 @
             [\<lparr>enr_pk = next_pk (map enr_pk (enrollments st1)), student_id = user_pk y,
               enr_course_id = pk, status = ACTIVE, enrolled_at = t2, dropped_at = None\<rparr>]"
    and c2: "courses st2 = courses st1"
    by blast
  have y2: "list_ex (\<lambda>e. student_id e = user_pk y \<and> enr_course_id e = pk \<and> status e = ACTIVE)
        (enrollments st2)"
    by (simp add: en2 list_ex_iff)
  have ec2: "enrolled_count st2 crs = 2"
    using ec1 by (simp add: enrolled_count_def en2 pk)
  have f2: "is_full st2 crs" using cap ec2 by (simp add: is_full_def)
  have crs2: "get_course st2 pk = Some crs" using crs1 c2 by (simp add: get_course_def)
  have e3: "enroll st2 (post_as z) pk t3 =
        Inr (st2, Redirect_pk ''course-detail'' pk, [(ERROR, ''This course is full.'')])"
    by (rule enroll_full [OF ru rm z crs2 f2])
  have fz0: "filter (\<lambda>e. student_id e = user_pk z \<and> enr_course_id e = pk) (enrollments st) = []"
    by (rule no_row_filter [OF fresh]) simp
  have "filter (\<lambda>e. student_id e = user_pk z \<and> enr_course_id e = pk) (enrollments st2) = []"
    using fz0 ne(2,3) by (simp add: en2 en1)
  then have z2: "\<not> list_ex (\<lambda>e. student_id e = user_pk z \<and> enr_course_id e = pk) (enrollments st2)"
    by (simp add: list_ex_iff filter_empty_conv)
  from e1 x1 ec1 nf1 e2 y2 ec2 f2 e3 z2 show ?thesis by blast
qed

theorem capacity_scenario_witness:
  "\<exists>st1 st2.
      enroll (campus_with []) (post_as student_x) 1 10 =
        Inr (st1, Redirect_pk ''course-detail'' 1,
             [(SUCCESS, ''Successfully enrolled in Logic.'')]) \<and>
      enrolled_count st1 course_c = 1 \<and> \<not> is_full st1 course_c \<and>
      enroll st1 (post_as student_y) 1 11 =
        Inr (st2, Redirect_pk ''course-detail'' 1,
             [(SUCCESS, ''Successfully enrolled in Logic.'')]) \<and>
      enrolled_count st2 course_c = 2 \<and> is_full st2 course_c \<and>
      enroll st2 (post_as student_z) 1 12 =
        Inr (st2, Redirect_pk ''course-detail'' 1, [(ERROR, ''This course is full.'')]) \<and>
      \<not> list_ex (\<lambda>e. student_id e = 4 \<and> enr_course_id e = 1) (enrollments st2)"
proof -
  let ?st = "campus_with []"
  have crs: "get_course ?st 1 = Some course_c" by (rule get_course_campus_with)
  have cap: "max_students course_c = 2" by (simp add: course_c_def)
  have zero: "enrolled_count ?st course_c = 0" by (simp add: enrolled_count_campus_with)
  have x: "is_student student_x" "get_user ?st (user_pk student_x) = Some student_x"
    by (simp_all add: is_student_def get_user_def campus_with_defs)
  have y: "is_student student_y" "get_user ?st (user_pk student_y) = Some student_y"
    by (simp_all add: is_student_def get_user_def campus_with_defs)
  have z: "is_student student_z" by (simp add: is_student_def student_z_def)
  have ne: "user_pk student_x \<noteq> user_pk student_y" "user_pk student_z \<noteq> user_pk student_x"
    "user_pk student_z \<noteq> user_pk student_y"
    by (simp_all add: student_x_def student_y_def student_z_def)
  have fresh: "\<forall>e\<in>set (enrollments ?st). enr_course_id e = 1 \<longrightarrow>
                  student_id e \<notin> {user_pk student_x, user_pk student_y, user_pk student_z}"
    by (simp add: campus_with_def)
  have t: "course_title course_c = ''Logic''" and k: "user_pk student_z = 4"
    by (simp_all add: course_c_def student_z_def)
  from capacity_scenario [OF crs cap zero x y z ne fresh, of 10 11 12]
  show ?thesis unfolding t k by (simp only: append.simps) blast
qed

lemma unique_pair_inactive:
  assumes "distinct (map (\<lambda>e. (student_id e, enr_course_id e)) xs)"
    and "e \<in> set xs" and "status e \<noteq> ACTIVE"
  shows "\<not> (\<exists>e'\<in>set xs. student_id e' = student_id e \<and> enr_course_id e' = enr_course_id e
                \<and> status e' = ACTIVE)"
proof
  assume "\<exists>e'\<in>set xs. student_id e' = student_id e \<and> enr_course_id e' = enr_course_id e
                \<and> status e' = ACTIVE"
  then obtain e' where e': "e' \<in> set xs" "student_id e' = student_id e"
    "enr_course_id e' = enr_course_id e" "status e' = ACTIVE" by blast
  from assms(1) have "inj_on (\<lambda>e. (student_id e, enr_course_id e)) (set xs)"
    by (simp add: distinct_map)
  with e'(1-3) assms(2) have "e' = e" by (auto dest: inj_onD)
  with e'(4) assms(3) show False by simp
qed

lemma filter_order_by_desc: "filter P (order_by_desc f xs) = order_by_desc f (filter P xs)"
proof -
  have "filter P (rev (sort_key f (rev xs))) = rev (filter P (sort_key f (rev xs)))"
    by (simp only: rev_filter)
  also have "\<dots> = rev (sort_key f (filter P (rev xs)))"
    by (simp only: filter_sort)
  also have "\<dots> = rev (sort_key f (rev (filter P xs)))"
    by (simp only: rev_filter)
  finally show ?thesis by (simp only: order_by_desc_def)
qed

lemma length_filter_map_order_by_desc:
  "length (filter Q (map g (order_by_desc f xs))) = length (filter Q (map g xs))"
proof -
  have "length (filter Q (map g (order_by_desc f xs))) =
        length (filter (Q \<circ> g) (order_by_desc f xs))"
    by (simp add: filter_map)
  also have "\<dots> = length (order_by_desc f (filter (Q \<circ> g) xs))"
    by (simp only: filter_order_by_desc)
  also have "\<dots> = length (filter (Q \<circ> g) xs)"
    by (simp add: order_by_desc_def)
  also have "\<dots> = length (filter Q (map g xs))"
    by (simp add: filter_map)
  finally show ?thesis .
qed

text \<open>
  Claim C6. In eager dispatch mode, the first save of a CourseMaterial makes exactly one
  bulk_create call on the notification manager, whose rows are the only notifications
  added: one row per enrollment of the course that is active at that time (so, rows per
  student being unique, exactly one for a student with an active enrollment and none for
  a student whose enrollment is dropped or blocked), the latest enrollment first. Saving the stored material again
  after an edit adds no notification and makes no call.
\<close>

theorem material_created_notifies_active_students:
  assumes eager: "task_always_eager st"
    and crs: "get_course st (mat_course_id m) = Some crs"
    and new: "mat_pk m = None"
    and uniq: "distinct (map (\<lambda>e. (student_id e, enr_course_id e)) (enrollments st))"
  shows "\<exists>st' ns. CourseMaterial_save st m = Inr st' \<and>
     notifications st' = notifications st @ ns \<and>
     notification_calls st' = notification_calls st @ [Bulk_create ns] \<and>
     map recipient_id ns =
       map student_id
         (order_by_desc enrolled_at
            (filter (\<lambda>e. enr_course_id e = mat_course_id m \<and> status e = ACTIVE)
               (enrollments st))) \<and>
     (\<forall>n\<in>set ns. notification_type n = ''new_material'') \<and>
     (\<forall>s. length (filter (\<lambda>n. recipient_id n = s) ns) =
            (if \<exists>e\<in>set (enrollments st). student_id e = s \<and> enr_course_id e = mat_course_id m
                   \<and> status e = ACTIVE then 1 else 0)) \<and>
     (\<forall>e\<in>set (enrollments st). enr_course_id e = mat_course_id m \<and> status e \<noteq> ACTIVE \<longrightarrow>
          filter (\<lambda>n. recipient_id n = student_id e) ns = []) \<and>
     (\<forall>ttl. \<exists>st''. CourseMaterial_save st' ((last (materials st'))\<lparr>mat_title := ttl\<rparr>) = Inr st'' \<and>
          notifications st'' = notifications st' \<and>
          notification_calls st'' = notification_calls st')"
proof -
  define cid where "cid = mat_course_id m"
  define k where "k = next_pk (map (\<lambda>x. case mat_pk x of None \<Rightarrow> 0 | Some k \<Rightarrow> k) (materials st))"
  define m1 where "m1 = m\<lparr>mat_pk := Some k\<rparr>"
  define act where "act = order_by_desc enrolled_at
      (filter (\<lambda>e. enr_course_id e = cid \<and> status e = ACTIVE) (enrollments st))"
  define mk where "mk = (\<lambda>sid. \<lparr>recipient_id = sid, notification_type = ''new_material'',
      title = ''New material in '' @ course_code crs,
      message = [CHR 0x22] @ mat_title m @ [CHR 0x22] @ '' has been uploaded to ''
                  @ course_title crs @ ''.'',
      link = ''/courses/'' @ str_nat cid @ ''/'', is_read = False\<rparr>)"
  define ns where "ns = map mk (map student_id act)"
  define st' where "st' = st\<lparr>materials := materials st @ [m1],
      notifications := notifications st @ ns,
      notification_calls := notification_calls st @ [Bulk_create ns]\<rparr>"
  have crs': "get_course (st\<lparr>materials := materials st @ [m1]\<rparr>) (mat_course_id m1) = Some crs"
    using crs by (simp add: get_course_def m1_def)
  have eager': "task_always_eager (st\<lparr>materials := materials st @ [m1]\<rparr>)"
    using eager by simp
  have f1: "mat_course_id m1 = cid" and f2: "mat_title m1 = mat_title m"
    by (simp_all add: m1_def cid_def)
  have step1: "CourseMaterial_save st m =
      notify_students_on_new_material (st\<lparr>materials := materials st @ [m1]\<rparr>) m1 True"
    by (simp add: CourseMaterial_save_def new Let_def m1_def k_def)
  have step2: "notify_students_on_new_material (st\<lparr>materials := materials st @ [m1]\<rparr>) m1 True =
      Inr (delay (st\<lparr>materials := materials st @ [m1]\<rparr>)
             (Notify_course_students cid ''new_material''
               (''New material in '' @ course_code crs)
               ([CHR 0x22] @ mat_title m @ [CHR 0x22] @ '' has been uploaded to ''
                  @ course_title crs @ ''.'')
               (''/courses/'' @ str_nat cid @ ''/'')))"
    using crs' by (simp add: notify_students_on_new_material_def f1 f2)
  have step3: "delay (st\<lparr>materials := materials st @ [m1]\<rparr>)
             (Notify_course_students cid ''new_material''
               (''New material in '' @ course_code crs)
               ([CHR 0x22] @ mat_title m @ [CHR 0x22] @ '' has been uploaded to ''
                  @ course_title crs @ ''.'')
               (''/courses/'' @ str_nat cid @ ''/'')) = st'"
    unfolding delay_eager_bulk [OF eager']
    by (simp add: Let_def st'_def ns_def mk_def act_def)
  have save: "CourseMaterial_save st m = Inr st'"
    by (simp only: step1 step2 step3)
  have n1: "notifications st' = notifications st @ ns"
    and n2: "notification_calls st' = notification_calls st @ [Bulk_create ns]"
    by (simp_all add: st'_def)
  have mk1: "recipient_id (mk sid) = sid" and mk2: "notification_type (mk sid) = ''new_material''"
    for sid by (simp_all add: mk_def)
  have r: "map recipient_id ns = map student_id act"
    by (simp add: ns_def mk1 comp_def)
  have ty: "\<forall>n\<in>set ns. notification_type n = ''new_material''"
    unfolding ns_def by (simp add: mk2)
  have cnt: "length (filter (\<lambda>n. recipient_id n = s) ns) =
            (if \<exists>e\<in>set (enrollments st). student_id e = s \<and> enr_course_id e = cid
                   \<and> status e = ACTIVE then 1 else 0)" for s
  proof -
    have "length (filter (\<lambda>n. recipient_id n = s) ns) =
          length (filter (\<lambda>sid. sid = s) (map recipient_id ns))"
      by (simp add: filter_map comp_def)
    also have "\<dots> = length (filter (\<lambda>sid. sid = s) (map student_id act))"
      by (simp only: r)
    also have "\<dots> = length (filter (\<lambda>sid. sid = s)
            (map student_id (filter (\<lambda>e. enr_course_id e = cid \<and> status e = ACTIVE)
                               (enrollments st))))"
      unfolding act_def by (rule length_filter_map_order_by_desc)
    also have "\<dots> = (if \<exists>e\<in>set (enrollments st). student_id e = s \<and> enr_course_id e = cid
                   \<and> status e = ACTIVE then 1 else 0)"
      by (rule unique_pair_active_count [OF uniq])
    finally show ?thesis .
  qed
  have none: "\<forall>e\<in>set (enrollments st). enr_course_id e = cid \<and> status e \<noteq> ACTIVE \<longrightarrow>
          filter (\<lambda>n. recipient_id n = student_id e) ns = []"
  proof (intro ballI impI)
    fix e assume e: "e \<in> set (enrollments st)" and h: "enr_course_id e = cid \<and> status e \<noteq> ACTIVE"
    from unique_pair_inactive [OF uniq e] h
    have "\<not> (\<exists>e'\<in>set (enrollments st). student_id e' = student_id e \<and> enr_course_id e' = cid
                \<and> status e' = ACTIVE)" by simp
    with cnt [of "student_id e"] show "filter (\<lambda>n. recipient_id n = student_id e) ns = []"
      by simp
  qed
  have edit: "\<exists>st''. CourseMaterial_save st' ((last (materials st'))\<lparr>mat_title := ttl\<rparr>) = Inr st'' \<and>
          notifications st'' = notifications st' \<and>
          notification_calls st'' = notification_calls st'" for ttl
    by (simp add: st'_def m1_def CourseMaterial_save_def notify_students_not_created list_ex_iff)
  from save n1 n2 r ty cnt none edit show ?thesis
    unfolding cid_def act_def by blast
qed

theorem material_created_notifies_active_students_witness:
  "\<exists>st' ns. CourseMaterial_save
        (campus_with [row_at 1 2 ACTIVE 3, row_at 2 3 ACTIVE 8, row 3 4 DROPPED (Some 5)])
        week_one = Inr st' \<and>
     notifications st' = ns \<and> notification_calls st' = [Bulk_create ns] \<and>
     map recipient_id ns = [3, 2] \<and>
     filter (\<lambda>n. recipient_id n = 4) ns = []"
proof -
  define es where "es = [row_at 1 2 ACTIVE 3, row_at 2 3 ACTIVE 8, row 3 4 DROPPED (Some 5)]"
  define st where "st = campus_with es"
  have eager: "task_always_eager st" by (simp add: st_def campus_with_defs)
  have crs: "get_course st (mat_course_id week_one) = Some course_c"
    using get_course_campus_with [of es] by (simp add: week_one_def st_def)
  have new: "mat_pk week_one = None" by (simp add: week_one_def)
  have en: "enrollments st = es" and n0: "notifications st = []"
    and c0: "notification_calls st = []"
    by (simp_all add: st_def campus_with_defs)
  have uniq: "distinct (map (\<lambda>e. (student_id e, enr_course_id e)) (enrollments st))"
    unfolding en by (simp add: es_def row_def row_at_def)
  have act: "order_by_desc enrolled_at
               (filter (\<lambda>e. enr_course_id e = mat_course_id week_one \<and> status e = ACTIVE) es) =
             [row_at 2 3 ACTIVE 8, row_at 1 2 ACTIVE 3]"
    by (simp add: es_def week_one_def row_def row_at_def order_by_desc_def)
  from material_created_notifies_active_students [OF eager crs new uniq]
  obtain st' ns where
    a: "CourseMaterial_save st week_one = Inr st'"
    and b: "notifications st' = notifications st @ ns"
    and c: "notification_calls st' = notification_calls st @ [Bulk_create ns]"
    and d: "map recipient_id ns =
       map student_id
         (order_by_desc enrolled_at
            (filter (\<lambda>e. enr_course_id e = mat_course_id week_one \<and> status e = ACTIVE)
               (enrollments st)))"
    and e: "\<forall>e\<in>set (enrollments st). enr_course_id e = mat_course_id week_one \<and> status e \<noteq> ACTIVE \<longrightarrow>
          filter (\<lambda>n. recipient_id n = student_id e) ns = []"
    by blast
  have d': "map recipient_id ns = [3, 2]"
    using d unfolding en act by (simp add: row_at_def)
  have e4: "filter (\<lambda>n. recipient_id n = 4) ns = []"
    using e [rule_format, of "row 3 4 DROPPED (Some 5)"] unfolding en
    by (simp add: es_def week_one_def row_def)
  have "\<exists>st' ns. CourseMaterial_save st week_one = Inr st' \<and>
     notifications st' = ns \<and> notification_calls st' = [Bulk_create ns] \<and>
     map recipient_id ns = [3, 2] \<and> filter (\<lambda>n. recipient_id n = 4) ns = []"
    using a b c d' e4 unfolding n0 c0 by simp
  then show ?thesis unfolding st_def es_def .
qed

section \<open>Properties of the chat\<close>

lemma is_participant_iff:
  "is_participant st c u \<longleftrightarrow>
     (\<exists>r\<in>set (rooms st). room_pk r = int_str (url_id c) \<and> user_pk u \<in> participants r)"
  by (simp add: is_participant_def list_ex_iff)

lemma has_course_access_iff:
  "has_course_access st c u \<longleftrightarrow>
     (\<exists>crs. get_course st (int_str (url_id c)) = Some crs \<and>
        (teacher_id crs = user_pk u \<or>
         (\<exists>e\<in>set (enrollments st). student_id e = user_pk u \<and> enr_course_id e = course_pk crs
             \<and> status e = ACTIVE)))"
  by (auto simp: has_course_access_def list_ex_iff split: option.splits)

text \<open>
  Claim C1. A WebSocket connection attempt is accepted exactly when the caller is
  authorized. The anonymous user is closed, in both consumers, with the state unchanged.
  An authenticated caller of the direct consumer is accepted iff some room with the given
  id lists the caller among its participants; of the group consumer, iff the course with
  the given id exists and the caller is its teacher or has an enrollment with status
  active for it (no course: closed). A connection that is not accepted leaves the state,
  and so every broadcast group, unchanged; an accepted one is added to the group of its
  room.
\<close>

theorem websocket_connect_authorization:
  "(scope_usr c = AnonymousUser \<longrightarrow>
      DirectChatConsumer_connect st c = (Closed, st) \<and>
      GroupChatConsumer_connect st c = (Closed, st)) \<and>
   (\<forall>u. scope_usr c = Authenticated u \<longrightarrow>
      (fst (DirectChatConsumer_connect st c) = Accepted \<longleftrightarrow>
         (\<exists>r\<in>set (rooms st). room_pk r = int_str (url_id c) \<and> user_pk u \<in> participants r)) \<and>
      (fst (GroupChatConsumer_connect st c) = Accepted \<longleftrightarrow>
         (\<exists>crs. get_course st (int_str (url_id c)) = Some crs \<and>
            (teacher_id crs = user_pk u \<or>
             (\<exists>e\<in>set (enrollments st). student_id e = user_pk u \<and>
                 enr_course_id e = course_pk crs \<and> status e = ACTIVE))))) \<and>
   (get_course st (int_str (url_id c)) = None \<longrightarrow> GroupChatConsumer_connect st c = (Closed, st)) \<and>
   (fst (DirectChatConsumer_connect st c) \<noteq> Accepted \<longrightarrow>
      DirectChatConsumer_connect st c = (Closed, st)) \<and>
   (fst (GroupChatConsumer_connect st c) \<noteq> Accepted \<longrightarrow>
      GroupChatConsumer_connect st c = (Closed, st)) \<and>
   (fst (DirectChatConsumer_connect st c) = Accepted \<longrightarrow>
      snd (DirectChatConsumer_connect st c) = group_add st (dm_group_name c) (channel_name c) \<and>
      channel_name c \<in> groups (snd (DirectChatConsumer_connect st c)) (dm_group_name c)) \<and>
   (fst (GroupChatConsumer_connect st c) = Accepted \<longrightarrow>
      snd (GroupChatConsumer_connect st c) = group_add st (course_group_name c) (channel_name c) \<and>
      channel_name c \<in> groups (snd (GroupChatConsumer_connect st c)) (course_group_name c))"
proof (intro conjI allI impI)
  assume "scope_usr c = AnonymousUser"
  then show "DirectChatConsumer_connect st c = (Closed, st)"
    and "GroupChatConsumer_connect st c = (Closed, st)"
    by (simp_all add: DirectChatConsumer_connect_def GroupChatConsumer_connect_def)
next
  fix u assume "scope_usr c = Authenticated u"
  then show "fst (DirectChatConsumer_connect st c) = Accepted \<longleftrightarrow>
         (\<exists>r\<in>set (rooms st). room_pk r = int_str (url_id c) \<and> user_pk u \<in> participants r)"
    by (simp add: DirectChatConsumer_connect_def is_participant_iff)
next
  fix u assume "scope_usr c = Authenticated u"
  then show "fst (GroupChatConsumer_connect st c) = Accepted \<longleftrightarrow>
         (\<exists>crs. get_course st (int_str (url_id c)) = Some crs \<and>
            (teacher_id crs = user_pk u \<or>
             (\<exists>e\<in>set (enrollments st). student_id e = user_pk u \<and>
                 enr_course_id e = course_pk crs \<and> status e = ACTIVE)))"
    unfolding GroupChatConsumer_connect_def by (simp add: has_course_access_iff) blast
next
  assume "get_course st (int_str (url_id c)) = None"
  then show "GroupChatConsumer_connect st c = (Closed, st)"
    by (simp add: GroupChatConsumer_connect_def has_course_access_def split: scope_user.splits)
next
  assume "fst (DirectChatConsumer_connect st c) \<noteq> Accepted"
  then show "DirectChatConsumer_connect st c = (Closed, st)"
    by (cases "scope_usr c") (simp_all add: DirectChatConsumer_connect_def split: if_splits)
next
  assume "fst (GroupChatConsumer_connect st c) \<noteq> Accepted"
  then show "GroupChatConsumer_connect st c = (Closed, st)"
    by (cases "scope_usr c") (simp_all add: GroupChatConsumer_connect_def split: if_splits)
next
  assume a: "fst (DirectChatConsumer_connect st c) = Accepted"
  then show "snd (DirectChatConsumer_connect st c) = group_add st (dm_group_name c) (channel_name c)"
    by (cases "scope_usr c") (simp_all add: DirectChatConsumer_connect_def split: if_splits)
  then show "channel_name c \<in> groups (snd (DirectChatConsumer_connect st c)) (dm_group_name c)"
    by (simp add: group_add_def)
next
  assume a: "fst (GroupChatConsumer_connect st c) = Accepted"
  then show "snd (GroupChatConsumer_connect st c) = group_add st (course_group_name c) (channel_name c)"
    by (cases "scope_usr c") (simp_all add: GroupChatConsumer_connect_def split: if_splits)
  then show "channel_name c \<in> groups (snd (GroupChatConsumer_connect st c)) (course_group_name c)"
    by (simp add: group_add_def)
qed

lemmas chat_campus_defs = chat_campus_def dm_room_def ws_def campus_with_defs

lemma int_str_one: "int_str ''1'' = 1" and int_str_nine: "int_str ''9'' = 9"
  by (simp_all add: int_str_def)

theorem websocket_connect_authorization_witness:
  "DirectChatConsumer_connect chat_campus (ws ''c0'' AnonymousUser ''1'') = (Closed, chat_campus) \<and>
   fst (DirectChatConsumer_connect chat_campus (ws ''c1'' (Authenticated student_x) ''1'')) = Accepted \<and>
   DirectChatConsumer_connect chat_campus (ws ''c2'' (Authenticated student_z) ''1'') =
     (Closed, chat_campus) \<and>
   fst (GroupChatConsumer_connect chat_campus (ws ''c3'' (Authenticated teacher_t) ''1'')) = Accepted \<and>
   fst (GroupChatConsumer_connect chat_campus (ws ''c4'' (Authenticated student_x) ''1'')) = Accepted \<and>
   GroupChatConsumer_connect chat_campus (ws ''c5'' (Authenticated student_y) ''1'') =
     (Closed, chat_campus) \<and>
   GroupChatConsumer_connect chat_campus (ws ''c6'' (Authenticated teacher_t) ''9'') =
     (Closed, chat_campus)"
proof -
  note T = websocket_connect_authorization [of _ chat_campus]
  have rooms: "rooms chat_campus = [dm_room]"
    and enrs: "enrollments chat_campus = [row 1 2 ACTIVE None, row 2 3 DROPPED (Some 5)]"
    by (simp_all add: chat_campus_def)
  have gc1: "get_course chat_campus 1 = Some course_c"
    and gc9: "get_course chat_campus 9 = None"
    by (simp_all add: get_course_def chat_campus_def example_defs)
  have gc1: "get_course chat_campus (Suc 0) = Some course_c" using gc1 by simp
  have p0: "DirectChatConsumer_connect chat_campus (ws ''c0'' AnonymousUser ''1'') = (Closed, chat_campus)"
    using T [of "ws ''c0'' AnonymousUser ''1''", THEN conjunct1] by (simp add: ws_def)
  have p1: "fst (DirectChatConsumer_connect chat_campus (ws ''c1'' (Authenticated student_x) ''1'')) = Accepted"
    using T [of "ws ''c1'' (Authenticated student_x) ''1''", THEN conjunct2, THEN conjunct1,
             THEN spec, of student_x]
    by (simp add: ws_def rooms int_str_one) (simp add: dm_room_def student_x_def)
  have p2': "fst (DirectChatConsumer_connect chat_campus (ws ''c2'' (Authenticated student_z) ''1''))
               \<noteq> Accepted"
    using T [of "ws ''c2'' (Authenticated student_z) ''1''", THEN conjunct2, THEN conjunct1,
             THEN spec, of student_z]
    by (simp add: ws_def rooms int_str_one) (simp add: dm_room_def student_z_def)
  have p2: "DirectChatConsumer_connect chat_campus (ws ''c2'' (Authenticated student_z) ''1'') =
     (Closed, chat_campus)"
    using T [of "ws ''c2'' (Authenticated student_z) ''1''", THEN conjunct2, THEN conjunct2,
             THEN conjunct2, THEN conjunct1] p2' by simp
  have p3: "fst (GroupChatConsumer_connect chat_campus (ws ''c3'' (Authenticated teacher_t) ''1'')) = Accepted"
    using T [of "ws ''c3'' (Authenticated teacher_t) ''1''", THEN conjunct2, THEN conjunct1,
             THEN spec, of teacher_t]
    by (simp add: ws_def int_str_one gc1) (simp add: course_c_def teacher_t_def)
  have p4: "fst (GroupChatConsumer_connect chat_campus (ws ''c4'' (Authenticated student_x) ''1'')) = Accepted"
    using T [of "ws ''c4'' (Authenticated student_x) ''1''", THEN conjunct2, THEN conjunct1,
             THEN spec, of student_x]
    by (simp add: ws_def int_str_one gc1 enrs) (simp add: course_c_def student_x_def row_def)
  have p5': "fst (GroupChatConsumer_connect chat_campus (ws ''c5'' (Authenticated student_y) ''1''))
               \<noteq> Accepted"
    using T [of "ws ''c5'' (Authenticated student_y) ''1''", THEN conjunct2, THEN conjunct1,
             THEN spec, of student_y]
    by (simp add: ws_def int_str_one gc1 enrs) (simp add: course_c_def student_y_def row_def)
  have p5: "GroupChatConsumer_connect chat_campus (ws ''c5'' (Authenticated student_y) ''1'') =
     (Closed, chat_campus)"
    using T [of "ws ''c5'' (Authenticated student_y) ''1''", THEN conjunct2, THEN conjunct2,
             THEN conjunct2, THEN conjunct2, THEN conjunct1] p5' by simp
  have p6: "GroupChatConsumer_connect chat_campus (ws ''c6'' (Authenticated teacher_t) ''9'') =
     (Closed, chat_campus)"
    using T [of "ws ''c6'' (Authenticated teacher_t) ''9''", THEN conjunct2, THEN conjunct2,
             THEN conjunct1]
    by (simp add: ws_def int_str_nine gc9)
  from p0 p1 p2 p3 p4 p5 p6 show ?thesis by blast
qed

lemma ChatRoom_get_or_create_new:
  assumes "get_course st cid \<noteq> None"
    and "filter (\<lambda>r. room_course_id r = Some cid) (rooms st) = []"
  shows "ChatRoom_get_or_create st cid nm now =
     Inr (st\<lparr>rooms := rooms st @
              [\<lparr>room_pk = next_pk (map room_pk (rooms st)), room_name = nm, room_kind = COURSE,
                room_course_id = Some cid, participants = {}, created_at = now\<rparr>]\<rparr>,
          \<lparr>room_pk = next_pk (map room_pk (rooms st)), room_name = nm, room_kind = COURSE,
           room_course_id = Some cid, participants = {}, created_at = now\<rparr>, True)"
proof -
  have none: "\<forall>r\<in>set (rooms st). room_course_id r \<noteq> Some cid"
    using assms(2) by (simp add: filter_empty_conv)
  then have f: "filter (\<lambda>r. room_course_id r = Some cid \<and> room_kind r = COURSE) (rooms st) = []"
    by (simp add: filter_empty_conv)
  have l: "\<not> list_ex (\<lambda>r. room_course_id r = Some cid) (rooms st)"
    using none by (simp add: list_ex_iff)
  show ?thesis using assms(1) l by (simp add: ChatRoom_get_or_create_def f Let_def)
qed




lemma group_send_fields:
  "messages (group_send st g ev) = messages st" "rooms (group_send st g ev) = rooms st"
  "groups (group_send st g ev) = groups st"
  "sent_frames (group_send st g ev) ch =
     (if ch \<in> groups st g then sent_frames st ch @ [ev] else sent_frames st ch)"
  by (simp_all add: group_send_def chat_message_def)


lemma group_receive_json_text:
  assumes "scope_usr c = Authenticated u"
    and "(case cont ''message'' of None \<Rightarrow> JString [] | Some v \<Rightarrow> v) = JString s"
    and "strip s \<noteq> []"
    and "ChatRoom_get_or_create st (int_str (url_id c)) (''Course '' @ url_id c @ '' Chat'') now =
           Inr (st1, room, created)"
  shows "GroupChatConsumer_receive_json st c cont now =
     Inr (group_send
            (st1\<lparr>messages := messages st1 @
                 [\<lparr>msg_pk = next_pk (map msg_pk (messages st1)), msg_room_id = room_pk room,
                   sender_id = user_pk u, content = strip s, timestamp = now,
                   msg_is_read = False\<rparr>]\<rparr>)
            (course_group_name c)
            \<lparr>f_message = strip s, f_sender_id = user_pk u, f_sender_username = username u,
             f_timestamp = Isoformat now\<rparr>)"
  using assms
  by (simp add: GroupChatConsumer_receive_json_def GroupChatConsumer_save_message_def Let_def)



lemma group_add_tables:
  "rooms (group_add st g ch) = rooms st" "courses (group_add st g ch) = courses st"
  "messages (group_add st g ch) = messages st" "enrollments (group_add st g ch) = enrollments st"
  by (simp_all add: group_add_def)

text \<open>
  Claim C8, as stated, fails: the connect operation of the group consumer only reads the
  database. After the teacher's accepted connect to a course without a room, the room
  table is still empty.
\<close>

theorem connect_creates_no_room_counterexample:
  "rooms campus = [] \<and>
   fst (GroupChatConsumer_connect campus (ws ''c3'' (Authenticated teacher_t) ''1'')) = Accepted \<and>
   rooms (snd (GroupChatConsumer_connect campus (ws ''c3'' (Authenticated teacher_t) ''1''))) = []"
proof -
  have r: "rooms campus = []" by (simp add: example_defs)
  have a: "has_course_access campus (ws ''c3'' (Authenticated teacher_t) ''1'') teacher_t"
    by (simp add: has_course_access_def ws_def int_str_one get_course_def example_defs)
  show ?thesis
    using a r by (simp add: GroupChatConsumer_connect_def ws_def group_add_tables)
qed

text \<open>
  Claim C8, amended. For a course that has no ChatRoom yet, an authorized course-room
  connect is accepted and leaves the room table unchanged; the room is created lazily
  when the first non-empty message received on that connection is saved, by a
  get-or-create keyed on (course id, room_type = course) whose default name is
  "Course <id> Chat", so that after this message the room exists.
\<close>

theorem course_room_created_on_first_message:
  assumes "scope_usr c = Authenticated u" and "has_course_access st c u"
    and "filter (\<lambda>r. room_course_id r = Some (int_str (url_id c))) (rooms st) = []"
    and "(case cont ''message'' of None \<Rightarrow> JString [] | Some v \<Rightarrow> v) = JString s"
    and "strip s \<noteq> []"
  shows "\<exists>st1. GroupChatConsumer_connect st c = (Accepted, st1) \<and> rooms st1 = rooms st \<and>
           (\<exists>st'. GroupChatConsumer_receive_json st1 c cont now = Inr st' \<and>
              rooms st' = rooms st @
                [\<lparr>room_pk = next_pk (map room_pk (rooms st)),
                  room_name = ''Course '' @ url_id c @ '' Chat'', room_kind = COURSE,
                  room_course_id = Some (int_str (url_id c)), participants = {},
                  created_at = now\<rparr>])"
proof -
  define st1 where "st1 = group_add st (course_group_name c) (channel_name c)"
  have con: "GroupChatConsumer_connect st c = (Accepted, st1)"
    using assms(1,2) by (simp add: GroupChatConsumer_connect_def st1_def)
  have r1: "rooms st1 = rooms st" by (simp add: st1_def group_add_tables)
  have crs: "get_course st (int_str (url_id c)) \<noteq> None"
    using assms(2) by (auto simp: has_course_access_def split: option.splits)
  have crs1: "get_course st1 (int_str (url_id c)) \<noteq> None"
    using crs by (simp add: get_course_def st1_def group_add_tables)
  have none1: "filter (\<lambda>r. room_course_id r = Some (int_str (url_id c))) (rooms st1) = []"
    using assms(3) by (simp add: r1)
  note goc = ChatRoom_get_or_create_new [OF crs1 none1, of "''Course '' @ url_id c @ '' Chat''" now]
  have "\<exists>st'. GroupChatConsumer_receive_json st1 c cont now = Inr st' \<and>
              rooms st' = rooms st @
                [\<lparr>room_pk = next_pk (map room_pk (rooms st)),
                  room_name = ''Course '' @ url_id c @ '' Chat'', room_kind = COURSE,
                  room_course_id = Some (int_str (url_id c)), participants = {},
                  created_at = now\<rparr>]"
    unfolding group_receive_json_text [where cont=cont and s=s, OF assms(1,4,5) goc]
    by (simp add: group_send_fields r1)
  with con r1 show ?thesis by blast
qed

theorem course_room_created_on_first_message_witness:
  "\<exists>st1. GroupChatConsumer_connect campus (ws ''c3'' (Authenticated teacher_t) ''1'') =
            (Accepted, st1) \<and> rooms st1 = [] \<and>
     (\<exists>st'. GroupChatConsumer_receive_json st1 (ws ''c3'' (Authenticated teacher_t) ''1'')
              [''message'' \<mapsto> JString ''hi''] 20 = Inr st' \<and>
         rooms st' = [\<lparr>room_pk = 1, room_name = ''Course 1 Chat'', room_kind = COURSE,
                       room_course_id = Some 1, participants = {}, created_at = 20\<rparr>])"
proof -
  define ct where "ct = ws ''c3'' (Authenticated teacher_t) ''1''"
  define hi :: "string \<rightharpoonup> json" where "hi = [''message'' \<mapsto> JString ''hi'']"
  have r: "rooms campus = []" by (simp add: example_defs)
  have a: "scope_usr ct = Authenticated teacher_t" by (simp add: ct_def ws_def)
  have b: "has_course_access campus ct teacher_t"
    by (simp add: has_course_access_def ct_def ws_def int_str_one get_course_def example_defs)
  have c: "filter (\<lambda>r. room_course_id r = Some (int_str (url_id ct))) (rooms campus) = []"
    by (simp add: r)
  have d: "(case hi ''message'' of None \<Rightarrow> JString [] | Some v \<Rightarrow> v) = JString ''hi''"
    by (simp add: hi_def)
  have e: "strip ''hi'' \<noteq> []" by (simp add: strip_def isspace_def)
  have k: "next_pk (map room_pk (rooms campus)) = 1" by (simp add: r next_pk_def)
  have n: "''Course '' @ url_id ct @ '' Chat'' = ''Course 1 Chat''"
    and i: "int_str (url_id ct) = 1"
    by (simp_all add: ct_def ws_def int_str_one)
  note T = course_room_created_on_first_message
    [where cont = hi and s = "''hi''", OF a b c d e, of 20, unfolded k n i, unfolded r]
  show ?thesis using T unfolding ct_def hi_def by simp
qed

lemma get_user_pk: "get_user st pk = Some u \<Longrightarrow> user_pk u = pk"
  by (auto simp: get_user_def find_Some_iff)

lemma dm_rooms_filter:
  "dm_rooms st a b =
     order_by_desc created_at
       (filter (\<lambda>r. room_kind r = DIRECT \<and> a \<in> participants r \<and> b \<in> participants r) (rooms st))"
proof -
  have eq: "filter (\<lambda>r. b \<in> participants r)
          (filter (\<lambda>r. room_kind r = DIRECT \<and> a \<in> participants r) xs) =
        filter (\<lambda>r. room_kind r = DIRECT \<and> a \<in> participants r \<and> b \<in> participants r) xs" for xs
    by (induction xs) auto
  show ?thesis by (simp only: dm_rooms_def eq)
qed

lemma dm_rooms_sym: "dm_rooms st a b = dm_rooms st b a"
proof -
  have eq: "filter (\<lambda>r. room_kind r = DIRECT \<and> a \<in> participants r \<and> b \<in> participants r) xs =
        filter (\<lambda>r. room_kind r = DIRECT \<and> b \<in> participants r \<and> a \<in> participants r) xs" for xs
    by (induction xs) auto
  show ?thesis by (simp only: dm_rooms_filter eq)
qed

lemma length_order_by_desc: "length (order_by_desc f xs) = length xs"
  by (simp add: order_by_desc_def)

lemma order_by_desc_Nil_iff: "order_by_desc f xs = [] \<longleftrightarrow> xs = []"
  using length_order_by_desc [of f xs] by (metis length_0_conv)

lemma order_by_desc_single: "order_by_desc f [x] = [x]"
  by (simp add: order_by_desc_def)

lemma length_dm_rooms:
  "length (dm_rooms st a b) =
     length (filter (\<lambda>r. room_kind r = DIRECT \<and> a \<in> participants r \<and> b \<in> participants r)
               (rooms st))"
  by (simp only: dm_rooms_filter length_order_by_desc)

lemma dm_rooms_after_create:
  assumes "dm_rooms st a b = []"
    and "room_kind r = DIRECT" and "a \<in> participants r" and "b \<in> participants r"
  shows "dm_rooms (st\<lparr>rooms := rooms st @ [r]\<rparr>) a b = [r]"
proof -
  have "filter (\<lambda>r. room_kind r = DIRECT \<and> a \<in> participants r \<and> b \<in> participants r) (rooms st) = []"
    using assms(1) by (simp only: dm_rooms_filter order_by_desc_Nil_iff)
  then show ?thesis
    using assms(2-4) by (simp add: dm_rooms_filter order_by_desc_single)
qed

lemma DirectMessageView_get_found:
  assumes "req_user rq = Authenticated u" and "get_user st uid = Some other"
    and "uid \<noteq> user_pk u" and "dm_rooms st (user_pk u) uid = r # rs"
  shows "DirectMessageView_get st rq uid now =
           (st, Render_chat_room r (take 100 (order_by timestamp (room_messages st r))))"
  using assms get_user_pk [OF assms(2)]
  by (simp add: DirectMessageView_get_def first_def)

lemma DirectMessageView_get_created:
  assumes "req_user rq = Authenticated u" and "get_user st uid = Some other"
    and "uid \<noteq> user_pk u" and "dm_rooms st (user_pk u) uid = []"
  shows "DirectMessageView_get st rq uid now =
           (let r = \<lparr>room_pk = next_pk (map room_pk (rooms st)),
                      room_name = username u @ '' & '' @ username other,
                      room_kind = DIRECT, room_course_id = None,
                      participants = {user_pk u, uid}, created_at = now\<rparr>
            in (st\<lparr>rooms := rooms st @ [r]\<rparr>,
                Render_chat_room r
                  (take 100 (order_by timestamp (room_messages (st\<lparr>rooms := rooms st @ [r]\<rparr>) r)))))"
  using assms get_user_pk [OF assms(2)]
  by (simp add: DirectMessageView_get_def first_def Let_def)

text \<open>One request of the pair: the state afterwards holds a first room of the pair, which
  is the room the response shows, and a second request finds the same room.\<close>

lemma DirectMessageView_get_effect:
  assumes "req_user rq = Authenticated u" and "get_user st uid = Some other"
    and "uid \<noteq> user_pk u"
  shows "\<exists>st1 r rs h. DirectMessageView_get st rq uid now = (st1, Render_chat_room r h) \<and>
           dm_rooms st1 (user_pk u) uid = r # rs \<and> users st1 = users st \<and>
           length (dm_rooms st1 (user_pk u) uid) = max 1 (length (dm_rooms st (user_pk u) uid))"
proof (cases "dm_rooms st (user_pk u) uid")
  case Nil
  let ?r = "\<lparr>room_pk = next_pk (map room_pk (rooms st)),
                      room_name = username u @ '' & '' @ username other,
                      room_kind = DIRECT, room_course_id = None,
                      participants = {user_pk u, uid}, created_at = now\<rparr>"
  have "dm_rooms (st\<lparr>rooms := rooms st @ [?r]\<rparr>) (user_pk u) uid = [?r]"
    by (rule dm_rooms_after_create [OF Nil]) simp_all
  then show ?thesis
    using DirectMessageView_get_created [OF assms Nil, of now] Nil
    by (simp add: Let_def)
next
  case (Cons r rs)
  then show ?thesis
    using DirectMessageView_get_found [OF assms Cons, of now] by simp
qed

lemma dm_requests_invariant:
  assumes "\<forall>q\<in>set rs. \<exists>t. q = (get_as a, user_pk b, t) \<or> q = (get_as b, user_pk a, t)"
    and "get_user st (user_pk a) = Some a" and "get_user st (user_pk b) = Some b"
    and "user_pk a \<noteq> user_pk b"
    and "length (dm_rooms st (user_pk a) (user_pk b)) \<le> 1"
  shows "length (dm_rooms (dm_requests st rs) (user_pk a) (user_pk b)) \<le> 1"
  using assms
proof (induction rs arbitrary: st)
  case Nil
  then show ?case by simp
next
  case (Cons q rs)
  from Cons.prems(1) obtain t where q: "q = (get_as a, user_pk b, t) \<or> q = (get_as b, user_pk a, t)"
    by auto
  have rest: "\<forall>q\<in>set rs. \<exists>t. q = (get_as a, user_pk b, t) \<or> q = (get_as b, user_pk a, t)"
    using Cons.prems(1) by simp
  have ra: "req_user (get_as a) = Authenticated a" and rb: "req_user (get_as b) = Authenticated b"
    by (simp_all add: get_as_def)
  from q show ?case
  proof
    assume qa: "q = (get_as a, user_pk b, t)"
    from DirectMessageView_get_effect [OF ra Cons.prems(3), of t] Cons.prems(4)
    obtain st1 r h where
      v: "DirectMessageView_get st (get_as a) (user_pk b) t = (st1, Render_chat_room r h)"
      and u: "users st1 = users st"
      and l: "length (dm_rooms st1 (user_pk a) (user_pk b)) =
                max 1 (length (dm_rooms st (user_pk a) (user_pk b)))"
      by auto
    have l1: "length (dm_rooms st1 (user_pk a) (user_pk b)) \<le> 1"
      using l Cons.prems(5) by simp
    have ua: "get_user st1 (user_pk a) = Some a" and ub: "get_user st1 (user_pk b) = Some b"
      using Cons.prems(2,3) u by (simp_all add: get_user_def)
    show ?thesis
      using Cons.IH [OF rest ua ub Cons.prems(4) l1] by (simp add: qa v)
  next
    assume qb: "q = (get_as b, user_pk a, t)"
    have ne: "user_pk a \<noteq> user_pk b" by (rule Cons.prems(4))
    from DirectMessageView_get_effect [OF rb Cons.prems(2), of t] ne
    obtain st1 r h where
      v: "DirectMessageView_get st (get_as b) (user_pk a) t = (st1, Render_chat_room r h)"
      and u: "users st1 = users st"
      and l: "length (dm_rooms st1 (user_pk b) (user_pk a)) =
                max 1 (length (dm_rooms st (user_pk b) (user_pk a)))"
      by auto
    have l1: "length (dm_rooms st1 (user_pk a) (user_pk b)) \<le> 1"
      using l Cons.prems(5) by (simp add: dm_rooms_sym [of _ "user_pk a" "user_pk b"])
    have ua: "get_user st1 (user_pk a) = Some a" and ub: "get_user st1 (user_pk b) = Some b"
      using Cons.prems(2,3) u by (simp_all add: get_user_def)
    show ?thesis
      using Cons.IH [OF rest ua ub Cons.prems(4) l1] by (simp add: qb v)
  qed
qed

lemma set_order_by_desc: "set (order_by_desc f xs) = set xs"
  by (simp add: order_by_desc_def)

lemma dm_rooms_member:
  assumes "r \<in> set (dm_rooms st a b)"
  shows "r \<in> set (rooms st)" and "room_kind r = DIRECT"
    and "a \<in> participants r" and "b \<in> participants r"
  using assms by (simp_all add: dm_rooms_filter set_order_by_desc)

text \<open>One request of the pair, exactly: the room shown is the first room of the pair in
  the state afterwards; it was created, as the last row, iff the pair had no room.\<close>

lemma DirectMessageView_get_exact:
  assumes "req_user rq = Authenticated u" and "get_user st uid = Some other"
    and "uid \<noteq> user_pk u"
  shows "\<exists>st1 r rs.
           DirectMessageView_get st rq uid now =
             (st1, Render_chat_room r (take 100 (order_by timestamp (room_messages st1 r)))) \<and>
           dm_rooms st1 (user_pk u) uid = r # rs \<and> users st1 = users st \<and>
           length (dm_rooms st1 (user_pk u) uid) = max 1 (length (dm_rooms st (user_pk u) uid)) \<and>
           length (rooms st1) =
             length (rooms st) + (if dm_rooms st (user_pk u) uid = [] then 1 else 0) \<and>
           (dm_rooms st (user_pk u) uid = [] \<longrightarrow>
              r = \<lparr>room_pk = next_pk (map room_pk (rooms st)),
                    room_name = username u @ '' & '' @ username other,
                    room_kind = DIRECT, room_course_id = None,
                    participants = {user_pk u, uid}, created_at = now\<rparr> \<and>
              st1 = st\<lparr>rooms := rooms st @ [r]\<rparr>) \<and>
           (dm_rooms st (user_pk u) uid \<noteq> [] \<longrightarrow> st1 = st)"
proof (cases "dm_rooms st (user_pk u) uid")
  case Nil
  define r where "r = \<lparr>room_pk = next_pk (map room_pk (rooms st)),
                      room_name = username u @ '' & '' @ username other,
                      room_kind = DIRECT, room_course_id = None,
                      participants = {user_pk u, uid}, created_at = now\<rparr>"
  define st1 where "st1 = st\<lparr>rooms := rooms st @ [r]\<rparr>"
  have d: "dm_rooms st1 (user_pk u) uid = [r]"
    unfolding st1_def by (rule dm_rooms_after_create [OF Nil]) (simp_all add: r_def)
  have v: "DirectMessageView_get st rq uid now =
             (st1, Render_chat_room r (take 100 (order_by timestamp (room_messages st1 r))))"
    using DirectMessageView_get_created [OF assms Nil, of now]
    by (simp add: Let_def st1_def r_def)
  have f: "users st1 = users st" "length (rooms st1) = length (rooms st) + 1"
    by (simp_all add: st1_def)
  have e: "r = \<lparr>room_pk = next_pk (map room_pk (rooms st)),
                    room_name = username u @ '' & '' @ username other,
                    room_kind = DIRECT, room_course_id = None,
                    participants = {user_pk u, uid}, created_at = now\<rparr> \<and>
              st1 = st\<lparr>rooms := rooms st @ [r]\<rparr>"
    by (simp add: r_def st1_def)
  have l: "length (dm_rooms st1 (user_pk u) uid) = max 1 (length (dm_rooms st (user_pk u) uid))"
    by (simp add: d Nil)
  have g: "length (rooms st1) =
             length (rooms st) + (if dm_rooms st (user_pk u) uid = [] then 1 else 0)"
    by (simp add: f Nil)
  have n: "dm_rooms st (user_pk u) uid \<noteq> [] \<longrightarrow> st1 = st" by (simp add: Nil)
  show ?thesis
    apply (rule exI [of _ st1], rule exI [of _ r], rule exI [of _ "[]"])
    apply (intro conjI)
          apply (rule v)
         apply (rule d)
        apply (rule f(1))
       apply (rule l)
      apply (rule g)
     apply (rule impI, rule e)
    apply (rule n)
    done
next
  case (Cons r rs)
  show ?thesis
    by (rule exI [of _ st], rule exI [of _ r], rule exI [of _ rs])
       (simp add: DirectMessageView_get_found [OF assms Cons, of now] Cons)
qed


lemma dm_requests_exact:
  assumes "\<forall>q\<in>set rs. \<exists>t. q = (get_as a, user_pk b, t) \<or> q = (get_as b, user_pk a, t)"
    and "get_user st (user_pk a) = Some a" and "get_user st (user_pk b) = Some b"
    and "user_pk a \<noteq> user_pk b"
  shows "length (dm_rooms (dm_requests st rs) (user_pk a) (user_pk b)) =
           (if rs = [] then length (dm_rooms st (user_pk a) (user_pk b))
            else max 1 (length (dm_rooms st (user_pk a) (user_pk b)))) \<and>
         length (rooms (dm_requests st rs)) =
           length (rooms st) +
           (if rs \<noteq> [] \<and> dm_rooms st (user_pk a) (user_pk b) = [] then 1 else 0)"
  using assms
proof (induction rs arbitrary: st)
  case Nil
  then show ?case by simp
next
  case (Cons q rs)
  from Cons.prems(1) obtain t where q: "q = (get_as a, user_pk b, t) \<or> q = (get_as b, user_pk a, t)"
    by auto
  have rest: "\<forall>q\<in>set rs. \<exists>t. q = (get_as a, user_pk b, t) \<or> q = (get_as b, user_pk a, t)"
    using Cons.prems(1) by simp
  have ra: "req_user (get_as a) = Authenticated a" and rb: "req_user (get_as b) = Authenticated b"
    by (simp_all add: get_as_def)
  have ne: "user_pk a \<noteq> user_pk b" by (rule Cons.prems(4))
  have "\<exists>st1. dm_requests st (q # rs) = dm_requests st1 rs \<and> users st1 = users st \<and>
          length (dm_rooms st1 (user_pk a) (user_pk b)) =
            max 1 (length (dm_rooms st (user_pk a) (user_pk b))) \<and>
          length (rooms st1) =
            length (rooms st) + (if dm_rooms st (user_pk a) (user_pk b) = [] then 1 else 0)"
    using q
  proof
    assume qa: "q = (get_as a, user_pk b, t)"
    from DirectMessageView_get_exact [OF ra Cons.prems(3), of t] ne
    obtain st1 r where
      v: "DirectMessageView_get st (get_as a) (user_pk b) t =
            (st1, Render_chat_room r (take 100 (order_by timestamp (room_messages st1 r))))"
      and u: "users st1 = users st"
      and l: "length (dm_rooms st1 (user_pk a) (user_pk b)) =
                max 1 (length (dm_rooms st (user_pk a) (user_pk b)))"
      and g: "length (rooms st1) =
                length (rooms st) + (if dm_rooms st (user_pk a) (user_pk b) = [] then 1 else 0)"
      by auto
    have "dm_requests st (q # rs) = dm_requests st1 rs" by (simp add: qa v)
    with u l g show ?thesis by blast
  next
    assume qb: "q = (get_as b, user_pk a, t)"
    from DirectMessageView_get_exact [OF rb Cons.prems(2), of t] ne
    obtain st1 r where
      v: "DirectMessageView_get st (get_as b) (user_pk a) t =
            (st1, Render_chat_room r (take 100 (order_by timestamp (room_messages st1 r))))"
      and u: "users st1 = users st"
      and l: "length (dm_rooms st1 (user_pk b) (user_pk a)) =
                max 1 (length (dm_rooms st (user_pk b) (user_pk a)))"
      and g: "length (rooms st1) =
                length (rooms st) + (if dm_rooms st (user_pk b) (user_pk a) = [] then 1 else 0)"
      by auto
    have "dm_requests st (q # rs) = dm_requests st1 rs" by (simp add: qb v)
    with u l g show ?thesis
      by (simp only: dm_rooms_sym [of _ "user_pk b" "user_pk a"]) blast
  qed
  then obtain st1 where
    step: "dm_requests st (q # rs) = dm_requests st1 rs" and u: "users st1 = users st"
    and l: "length (dm_rooms st1 (user_pk a) (user_pk b)) =
              max 1 (length (dm_rooms st (user_pk a) (user_pk b)))"
    and g: "length (rooms st1) =
              length (rooms st) + (if dm_rooms st (user_pk a) (user_pk b) = [] then 1 else 0)"
    by blast
  have ua: "get_user st1 (user_pk a) = Some a" and ub: "get_user st1 (user_pk b) = Some b"
    using Cons.prems(2,3) u by (simp_all add: get_user_def)
  have pos: "dm_rooms st1 (user_pk a) (user_pk b) \<noteq> []"
    using l by (cases "dm_rooms st1 (user_pk a) (user_pk b)") simp_all
  have m: "max 1 (length (dm_rooms st1 (user_pk a) (user_pk b))) =
            length (dm_rooms st1 (user_pk a) (user_pk b))"
    using l by simp
  from Cons.IH [OF rest ua ub ne]
  have ih1: "length (dm_rooms (dm_requests st1 rs) (user_pk a) (user_pk b)) =
               length (dm_rooms st1 (user_pk a) (user_pk b))"
    and ih2: "length (rooms (dm_requests st1 rs)) = length (rooms st1)"
    using pos m by (simp_all split: if_splits)
  show ?case
    by (simp only: step ih1 ih2 l g) simp
qed


text \<open>
  Claim C5. For two distinct users A and B of the user table: the bootstrap as A
  targeting B renders a room that is stored afterwards, is of type direct and holds A
  and B; it is the pair's existing room, the state unchanged, or, when the pair had
  none, a new room of exactly the two, appended to the table. The bootstrap as B
  targeting A then renders the same room and changes nothing. After any non-empty
  sequence of bootstrap requests between the two, in either direction, the pair has as
  many direct rooms as before, or one if it had none, and the table has grown by that
  one room at most: a pair with at most one room keeps at most one. A request targeting
  the requesting user is answered by the redirect to the room list, the state unchanged.
\<close>

theorem direct_room_bootstrap:
  assumes ua: "get_user st (user_pk a) = Some a" and ub: "get_user st (user_pk b) = Some b"
    and ne: "user_pk a \<noteq> user_pk b"
  shows
   "(\<exists>st1 room.
        DirectMessageView_get st (get_as a) (user_pk b) t1 =
          (st1, Render_chat_room room (take 100 (order_by timestamp (room_messages st1 room)))) \<and>
        DirectMessageView_get st1 (get_as b) (user_pk a) t2 =
          (st1, Render_chat_room room (take 100 (order_by timestamp (room_messages st1 room)))) \<and>
        room \<in> set (rooms st1) \<and> room_kind room = DIRECT \<and>
        user_pk a \<in> participants room \<and> user_pk b \<in> participants room \<and>
        first (dm_rooms st1 (user_pk a) (user_pk b)) = Some room \<and>
        (dm_rooms st (user_pk a) (user_pk b) = [] \<longrightarrow>
           room = \<lparr>room_pk = next_pk (map room_pk (rooms st)),
                    room_name = username a @ '' & '' @ username b,
                    room_kind = DIRECT, room_course_id = None,
                    participants = {user_pk a, user_pk b}, created_at = t1\<rparr> \<and>
           st1 = st\<lparr>rooms := rooms st @ [room]\<rparr>) \<and>
        (dm_rooms st (user_pk a) (user_pk b) \<noteq> [] \<longrightarrow> st1 = st)) \<and>
    (\<forall>rs. (\<forall>q\<in>set rs. \<exists>t. q = (get_as a, user_pk b, t) \<or> q = (get_as b, user_pk a, t)) \<longrightarrow>
          length (dm_rooms (dm_requests st rs) (user_pk a) (user_pk b)) =
            (if rs = [] then length (dm_rooms st (user_pk a) (user_pk b))
             else max 1 (length (dm_rooms st (user_pk a) (user_pk b)))) \<and>
          length (rooms (dm_requests st rs)) =
            length (rooms st) +
            (if rs \<noteq> [] \<and> dm_rooms st (user_pk a) (user_pk b) = [] then 1 else 0)) \<and>
    (\<forall>rs. (\<forall>q\<in>set rs. \<exists>t. q = (get_as a, user_pk b, t) \<or> q = (get_as b, user_pk a, t)) \<and>
          length (dm_rooms st (user_pk a) (user_pk b)) \<le> 1 \<longrightarrow>
          length (dm_rooms (dm_requests st rs) (user_pk a) (user_pk b)) \<le> 1) \<and>
    DirectMessageView_get st (get_as a) (user_pk a) t1 = (st, Redirect ''chat-room-list'')"
proof (intro conjI allI impI)
  have ra: "req_user (get_as a) = Authenticated a" and rb: "req_user (get_as b) = Authenticated b"
    by (simp_all add: get_as_def)
  from DirectMessageView_get_exact [OF ra ub, of t1] ne
  obtain st1 r rs where
    v: "DirectMessageView_get st (get_as a) (user_pk b) t1 =
          (st1, Render_chat_room r (take 100 (order_by timestamp (room_messages st1 r))))"
    and d: "dm_rooms st1 (user_pk a) (user_pk b) = r # rs"
    and u: "users st1 = users st"
    and new: "dm_rooms st (user_pk a) (user_pk b) = [] \<longrightarrow>
           r = \<lparr>room_pk = next_pk (map room_pk (rooms st)),
                    room_name = username a @ '' & '' @ username b,
                    room_kind = DIRECT, room_course_id = None,
                    participants = {user_pk a, user_pk b}, created_at = t1\<rparr> \<and>
           st1 = st\<lparr>rooms := rooms st @ [r]\<rparr>"
    and old: "dm_rooms st (user_pk a) (user_pk b) \<noteq> [] \<longrightarrow> st1 = st"
    by auto
  have ua1: "get_user st1 (user_pk a) = Some a" using ua u by (simp add: get_user_def)
  have d': "dm_rooms st1 (user_pk b) (user_pk a) = r # rs"
    using d by (simp only: dm_rooms_sym [of _ "user_pk b" "user_pk a"])
  have w: "DirectMessageView_get st1 (get_as b) (user_pk a) t2 =
          (st1, Render_chat_room r (take 100 (order_by timestamp (room_messages st1 r))))"
    by (rule DirectMessageView_get_found [OF rb ua1 ne d'])
  have mem: "r \<in> set (dm_rooms st1 (user_pk a) (user_pk b))" by (simp add: d)
  note props = dm_rooms_member [OF mem]
  have fst: "first (dm_rooms st1 (user_pk a) (user_pk b)) = Some r"
    by (simp add: d first_def)
  show "\<exists>st1 room.
        DirectMessageView_get st (get_as a) (user_pk b) t1 =
          (st1, Render_chat_room room (take 100 (order_by timestamp (room_messages st1 room)))) \<and>
        DirectMessageView_get st1 (get_as b) (user_pk a) t2 =
          (st1, Render_chat_room room (take 100 (order_by timestamp (room_messages st1 room)))) \<and>
        room \<in> set (rooms st1) \<and> room_kind room = DIRECT \<and>
        user_pk a \<in> participants room \<and> user_pk b \<in> participants room \<and>
        first (dm_rooms st1 (user_pk a) (user_pk b)) = Some room \<and>
        (dm_rooms st (user_pk a) (user_pk b) = [] \<longrightarrow>
           room = \<lparr>room_pk = next_pk (map room_pk (rooms st)),
                    room_name = username a @ '' & '' @ username b,
                    room_kind = DIRECT, room_course_id = None,
                    participants = {user_pk a, user_pk b}, created_at = t1\<rparr> \<and>
           st1 = st\<lparr>rooms := rooms st @ [room]\<rparr>) \<and>
        (dm_rooms st (user_pk a) (user_pk b) \<noteq> [] \<longrightarrow> st1 = st)"
    apply (rule exI [of _ st1], rule exI [of _ r])
    apply (intro conjI)
            apply (rule v)
           apply (rule w)
          apply (rule props(1))
         apply (rule props(2))
        apply (rule props(3))
       apply (rule props(4))
      apply (rule fst)
     apply (rule new)
    apply (rule old)
    done
next
  fix rs :: "(request \<times> nat \<times> nat) list"
  assume h: "\<forall>q\<in>set rs. \<exists>t. q = (get_as a, user_pk b, t) \<or> q = (get_as b, user_pk a, t)"
  note ex = dm_requests_exact [OF h ua ub ne]
  show "length (dm_rooms (dm_requests st rs) (user_pk a) (user_pk b)) =
            (if rs = [] then length (dm_rooms st (user_pk a) (user_pk b))
             else max 1 (length (dm_rooms st (user_pk a) (user_pk b))))"
    by (rule ex [THEN conjunct1])
  show "length (rooms (dm_requests st rs)) =
            length (rooms st) +
            (if rs \<noteq> [] \<and> dm_rooms st (user_pk a) (user_pk b) = [] then 1 else 0)"
    by (rule ex [THEN conjunct2])
next
  fix rs :: "(request \<times> nat \<times> nat) list"
  assume "(\<forall>q\<in>set rs. \<exists>t. q = (get_as a, user_pk b, t) \<or> q = (get_as b, user_pk a, t)) \<and>
          length (dm_rooms st (user_pk a) (user_pk b)) \<le> 1"
  then show "length (dm_rooms (dm_requests st rs) (user_pk a) (user_pk b)) \<le> 1"
    using dm_requests_invariant [OF _ ua ub ne] by blast
next
  show "DirectMessageView_get st (get_as a) (user_pk a) t1 = (st, Redirect ''chat-room-list'')"
    using ua by (simp add: DirectMessageView_get_def get_as_def)
qed


theorem direct_room_bootstrap_witness:
  "(\<exists>st1 room.
      DirectMessageView_get campus (get_as student_x) 3 10 = (st1, Render_chat_room room []) \<and>
      DirectMessageView_get st1 (get_as student_y) 2 11 = (st1, Render_chat_room room []) \<and>
      rooms st1 = [room] \<and>
      room = \<lparr>room_pk = 1, room_name = ''xavier & yara'', room_kind = DIRECT,
               room_course_id = None, participants = {2, 3}, created_at = 10\<rparr>) \<and>
   length (dm_rooms (dm_requests campus
      [(get_as student_x, 3, 10), (get_as student_y, 2, 11), (get_as student_x, 3, 12)]) 2 3) = 1 \<and>
   length (rooms (dm_requests campus
      [(get_as student_x, 3, 10), (get_as student_y, 2, 11), (get_as student_x, 3, 12)])) = 1 \<and>
   DirectMessageView_get campus (get_as student_x) 2 10 = (campus, Redirect ''chat-room-list'')"
proof -
  define reqs where "reqs = [(get_as student_x, 3::nat, 10::nat), (get_as student_y, 2, 11),
                             (get_as student_x, 3, 12)]"
  have kx: "user_pk student_x = 2" and ky: "user_pk student_y = 3"
    by (simp_all add: student_x_def student_y_def)
  have ua: "get_user campus (user_pk student_x) = Some student_x"
    and ub: "get_user campus (user_pk student_y) = Some student_y"
    by (simp_all add: get_user_def example_defs)
  have ne: "user_pk student_x \<noteq> user_pk student_y" by (simp add: kx ky)
  have r0: "rooms campus = []" and m0: "messages campus = []" by (simp_all add: example_defs)
  have dn: "dm_rooms campus (user_pk student_x) (user_pk student_y) = []"
    by (simp add: dm_rooms_filter r0 order_by_desc_def)
  note T = direct_room_bootstrap [OF ua ub ne, of 10 11]
  from T [THEN conjunct1] obtain st1 room where
    v: "DirectMessageView_get campus (get_as student_x) (user_pk student_y) 10 =
          (st1, Render_chat_room room (take 100 (order_by timestamp (room_messages st1 room))))"
    and w: "DirectMessageView_get st1 (get_as student_y) (user_pk student_x) 11 =
          (st1, Render_chat_room room (take 100 (order_by timestamp (room_messages st1 room))))"
    and new: "dm_rooms campus (user_pk student_x) (user_pk student_y) = [] \<longrightarrow>
           room = \<lparr>room_pk = next_pk (map room_pk (rooms campus)),
                    room_name = username student_x @ '' & '' @ username student_y,
                    room_kind = DIRECT, room_course_id = None,
                    participants = {user_pk student_x, user_pk student_y}, created_at = 10\<rparr> \<and>
           st1 = campus\<lparr>rooms := rooms campus @ [room]\<rparr>"
    by (elim exE conjE)
  from new dn have rm: "room = \<lparr>room_pk = next_pk (map room_pk (rooms campus)),
                    room_name = username student_x @ '' & '' @ username student_y,
                    room_kind = DIRECT, room_course_id = None,
                    participants = {user_pk student_x, user_pk student_y}, created_at = 10\<rparr>"
    and s1: "st1 = campus\<lparr>rooms := rooms campus @ [room]\<rparr>"
    by simp_all
  have hist: "take 100 (order_by timestamp (room_messages st1 room)) = []"
    by (simp add: s1 room_messages_def order_by_def m0)
  have rs1: "rooms st1 = [room]" by (simp add: s1 r0)
  have rm': "room = \<lparr>room_pk = 1, room_name = ''xavier & yara'', room_kind = DIRECT,
               room_course_id = None, participants = {2, 3}, created_at = 10\<rparr>"
    unfolding rm r0 by (simp add: next_pk_def student_x_def student_y_def)
  have p1: "\<exists>st1 room.
      DirectMessageView_get campus (get_as student_x) 3 10 = (st1, Render_chat_room room []) \<and>
      DirectMessageView_get st1 (get_as student_y) 2 11 = (st1, Render_chat_room room []) \<and>
      rooms st1 = [room] \<and>
      room = \<lparr>room_pk = 1, room_name = ''xavier & yara'', room_kind = DIRECT,
               room_course_id = None, participants = {2, 3}, created_at = 10\<rparr>"
    apply (rule exI [of _ st1], rule exI [of _ room])
    apply (intro conjI)
       apply (rule v [unfolded hist ky])
      apply (rule w [unfolded hist kx])
     apply (rule rs1)
    apply (rule rm')
    done
  have h: "\<forall>q\<in>set reqs. \<exists>t. q = (get_as student_x, user_pk student_y, t) \<or>
                               q = (get_as student_y, user_pk student_x, t)"
    by (simp add: reqs_def kx ky)
  note C = T [THEN conjunct2, THEN conjunct1, THEN spec, THEN mp, OF h]
  have ne_reqs: "reqs \<noteq> []" by (simp add: reqs_def)
  have p2: "length (dm_rooms (dm_requests campus reqs) 2 3) = 1"
    using C [THEN conjunct1] ne_reqs dn unfolding kx ky by simp
  have p3: "length (rooms (dm_requests campus reqs)) = 1"
    using C [THEN conjunct2] ne_reqs dn r0 unfolding kx ky by simp
  have p4: "DirectMessageView_get campus (get_as student_x) 2 10 = (campus, Redirect ''chat-room-list'')"
    using T [THEN conjunct2, THEN conjunct2, THEN conjunct2] unfolding kx .
  from p1 p2 p3 p4 show ?thesis unfolding reqs_def by (intro conjI)
qed

section \<open>Properties of the message history\<close>

lemma insort_key_last:
  "\<forall>y\<in>set ys. f y < f x \<Longrightarrow> insort_key f x ys = ys @ [x]"
  by (induction ys) auto

lemma foldr_insort_rev_sorted:
  "sorted (map f (acc @ xs)) \<Longrightarrow> distinct (map f (acc @ xs)) \<Longrightarrow>
   foldr (insort_key f) (rev xs) acc = acc @ xs"
proof (induction xs arbitrary: acc)
  case Nil
  then show ?case by simp
next
  case (Cons x xs)
  have lt: "\<forall>y\<in>set acc. f y < f x"
  proof
    fix y assume y: "y \<in> set acc"
    from Cons.prems(1) y have "f y \<le> f x" by (auto simp: sorted_append)
    moreover have "f x \<notin> f ` set acc" using Cons.prems(2) by auto
    with y have "f y \<noteq> f x" by (metis imageI)
    ultimately show "f y < f x" by simp
  qed
  have "foldr (insort_key f) (rev (x # xs)) acc = foldr (insort_key f) (rev xs) (insort_key f x acc)"
    by simp
  also have "\<dots> = foldr (insort_key f) (rev xs) (acc @ [x])"
    by (simp only: insort_key_last [OF lt])
  also have "\<dots> = (acc @ [x]) @ xs"
    using Cons.prems by (intro Cons.IH) simp_all
  finally show ?case by simp
qed

lemma sort_key_rev_sorted:
  assumes "sorted (map f xs)" and "distinct (map f xs)"
  shows "sort_key f (rev xs) = xs"
  using foldr_insort_rev_sorted [of f "[]" xs] assms by (simp add: sort_key_def)

lemma order_by_sorted: "sorted (map f xs) \<Longrightarrow> order_by f xs = xs"
  by (simp add: order_by_def sort_key_id_if_sorted)

lemma order_by_desc_sorted:
  "sorted (map f xs) \<Longrightarrow> distinct (map f xs) \<Longrightarrow> order_by_desc f xs = rev xs"
  by (simp add: order_by_desc_def sort_key_rev_sorted)

lemma timestamps_msg_at: "map timestamp (map msg_at is) = is"
  by (induction "is") (simp_all add: msg_at_def)

lemma busy_room_messages: "room_messages busy_chat dm_room = map msg_at [1..<102]"
proof -
  have "filter (\<lambda>m. msg_room_id m = 1) (map msg_at is) = map msg_at is" for "is"
    by (induction "is") (simp_all add: msg_at_def)
  then show ?thesis
    by (simp add: room_messages_def busy_chat_def dm_room_def)
qed

text \<open>
  Claim C9 on a direct room holding 101 messages with the timestamps 1 to 101: the
  on-page view renders the messages 1 to 100, in ascending order, and leaves out the
  most recent one, while the API serializer returns the most recent 50 (52 to 101) in
  ascending order.
\<close>

theorem on_page_history_keeps_oldest:
  "DirectMessageView_get busy_chat (get_as student_x) 3 200 =
     (busy_chat, Render_chat_room dm_room (map msg_at [1..<101])) \<and>
   msg_at 101 \<in> set (room_messages busy_chat dm_room) \<and>
   msg_at 101 \<notin> set (map msg_at [1..<101]) \<and>
   get_messages busy_chat dm_room = map msg_at [52..<102]"
proof -
  have ra: "req_user (get_as student_x) = Authenticated student_x" by (simp add: get_as_def)
  have gu: "get_user busy_chat 3 = Some student_y"
    by (simp add: get_user_def busy_chat_def chat_campus_def example_defs)
  have ne: "3 \<noteq> user_pk student_x" by (simp add: student_x_def)
  have d: "dm_rooms busy_chat (user_pk student_x) 3 = [dm_room]"
    by (simp add: dm_rooms_filter busy_chat_def chat_campus_def order_by_desc_single)
       (simp add: dm_room_def student_x_def)
  have srt: "sorted (map timestamp (map msg_at [1..<102]))"
    and dst: "distinct (map timestamp (map msg_at [1..<102]))"
    by (simp_all only: timestamps_msg_at sorted_upt distinct_upt)
  have h: "take 100 (order_by timestamp (room_messages busy_chat dm_room)) = map msg_at [1..<101]"
    by (simp only: busy_room_messages order_by_sorted [OF srt]) (simp add: take_map)
  have p1: "DirectMessageView_get busy_chat (get_as student_x) 3 200 =
     (busy_chat, Render_chat_room dm_room (map msg_at [1..<101]))"
    using DirectMessageView_get_found [OF ra gu ne d, of 200] by (simp only: h)
  have p2: "msg_at 101 \<in> set (room_messages busy_chat dm_room)"
    by (simp add: busy_room_messages)
  have p3: "msg_at 101 \<notin> set (map msg_at [1..<101])"
  proof
    assume "msg_at 101 \<in> set (map msg_at [1..<101])"
    then have "timestamp (msg_at 101) \<in> set (map timestamp (map msg_at [1..<101]))"
      by (metis imageI set_map)
    then show False by (simp only: timestamps_msg_at) (simp add: msg_at_def)
  qed
  have "get_messages busy_chat dm_room = rev (take 50 (rev (map msg_at [1..<102])))"
    by (simp only: get_messages_def busy_room_messages order_by_desc_sorted [OF srt dst])
  also have "\<dots> = drop 51 (map msg_at [1..<102])"
    by (simp add: rev_take)
  also have "\<dots> = map msg_at [52..<102]"
    by (simp add: drop_map)
  finally have p4: "get_messages busy_chat dm_room = map msg_at [52..<102]" .
  from p1 p2 p3 p4 show ?thesis by (intro conjI)
qed

text \<open>What both history paths do guarantee on every state: ascending timestamps and
  the cap of the window.\<close>

lemma on_page_history_ascending_capped:
  "sorted (map timestamp (take 100 (order_by timestamp (room_messages st room)))) \<and>
   length (take 100 (order_by timestamp (room_messages st room))) \<le> 100"
  by (simp add: order_by_def take_map [symmetric] sorted_wrt_take del: take_map)

lemma get_messages_ascending_capped:
  "sorted (map timestamp (get_messages st room)) \<and> length (get_messages st room) \<le> 50"
proof -
  let ?ys = "sort_key timestamp (rev (room_messages st room))"
  have "get_messages st room = rev (take 50 (rev ?ys))"
    by (simp add: get_messages_def order_by_desc_def)
  also have "\<dots> = drop (length ?ys - 50) ?ys"
    by (simp add: rev_take)
  finally have eq: "get_messages st room = drop (length ?ys - 50) ?ys" .
  have "sorted (map timestamp (drop (length ?ys - 50) ?ys))"
    by (simp add: drop_map [symmetric] sorted_wrt_drop del: drop_map)
  moreover have "length (drop (length ?ys - 50) ?ys) \<le> 50" by simp
  ultimately show ?thesis by (simp only: eq)
qed

end
